theory Spec2Isabelle
  imports Complex_Main "HOL-Library.Monad_Syntax"
begin

section \<open>The HANP local planner (hanp\_local\_planner.cpp)\<close>

text \<open>
  A shallow embedding of \<^verbatim>\<open>HANPLocalPlanner\<close>. The planner object is a record of its
  members; every member function takes the record and returns the updated one together with
  what it emitted (diagnostics and published messages).

  \<^item> A C++ \<^verbatim>\<open>double\<close> is a \<^typ>\<open>real\<close>: double arithmetic is exact. The theorems below
    compare the very expressions the source evaluates. Where the source narrows a double to
    \<^verbatim>\<open>float\<close> (the components of an \<^verbatim>\<open>Eigen::Vector3f\<close>), the model applies the
    function \<open>to_float\<close>, about which nothing is assumed.
  \<^item> A pointer member is an \<^typ>\<open>'a option\<close>: \<^term>\<open>None\<close> before \<^verbatim>\<open>initialize\<close> has
    stored an object there. A function that dereferences an unset pointer, or calls
    \<^verbatim>\<open>back()\<close> on an empty vector, has undefined behaviour in C++; the model returns
    \<^term>\<open>None\<close> for the whole call.
  \<^item> The classes of \<^verbatim>\<open>base_local_planner\<close>, \<^verbatim>\<open>costmap_2d\<close> and \<^verbatim>\<open>tf\<close> are libraries
    outside this repository. Objects that are only configured through setters are records of
    the values last set. What the libraries compute, and what the language leaves open (the
    narrowing to \<^verbatim>\<open>float\<close>, the contents of a default-constructed transform), is a field of
    the record \<open>ext\<close>, about which nothing is assumed.
  \<^item> The configuration mutex is not modelled: every member function runs alone.
\<close>

subsection \<open>Numbers, poses, plans\<close>

text \<open>\<^verbatim>\<open>Eigen::Vector3f\<close>.\<close>

type_synonym vec3 = "real \<times> real \<times> real"

text \<open>The C library's \<^verbatim>\<open>atan2(y, x)\<close>, on exact reals.\<close>

definition atan2 :: "real \<Rightarrow> real \<Rightarrow> real" where
  "atan2 y x =
     (if 0 < x then arctan (y / x)
      else if x < 0 \<and> 0 \<le> y then arctan (y / x) + pi
      else if x < 0 then arctan (y / x) - pi
      else if 0 < y then pi / 2
      else if y < 0 then - (pi / 2)
      else 0)"

text \<open>
  \<^verbatim>\<open>tf::Stamped<tf::Pose>\<close>: the origin and the rotation. The planner reads a rotation only
  through \<^verbatim>\<open>tf::getYaw\<close>, so a rotation is represented by the yaw that call returns.
\<close>

record tf_pose =
  frame_id_tf :: string
  origin_x :: real
  origin_y :: real
  origin_z :: real
  rotation_yaw :: real

text \<open>\<^verbatim>\<open>tf::Transform::setIdentity\<close>: zero origin, identity rotation (yaw 0).\<close>

definition setIdentity :: "tf_pose \<Rightarrow> tf_pose" where
  "setIdentity p = p\<lparr>origin_x := 0, origin_y := 0, origin_z := 0, rotation_yaw := 0\<rparr>"

text \<open>
  \<^verbatim>\<open>tf::createQuaternionFromYaw(t)\<close>, as \<^verbatim>\<open>tf::getYaw\<close> reads it back: the angle brought
  into the range of \<^verbatim>\<open>atan2\<close>.
\<close>

definition createQuaternionFromYaw :: "real \<Rightarrow> real" where
  "createQuaternionFromYaw t = atan2 (sin t) (cos t)"

text \<open>\<^verbatim>\<open>geometry_msgs::PoseStamped\<close>, its orientation again by its yaw.\<close>

record pose_stamped =
  header_frame_id :: string
  header_stamp :: real
  position_x :: real
  position_y :: real
  position_z :: real
  orientation_yaw :: real

type_synonym plan = "pose_stamped list"

text \<open>\<^verbatim>\<open>geometry_msgs::PointStamped\<close>.\<close>

record point_stamped =
  point_frame_id :: string
  point_stamp :: real
  point_x :: real
  point_y :: real
  point_z :: real

text \<open>\<^verbatim>\<open>geometry_msgs::Twist\<close>.\<close>

record twist =
  linear_x :: real
  linear_y :: real
  linear_z :: real
  angular_x :: real
  angular_y :: real
  angular_z :: real

text \<open>\<^verbatim>\<open>std::vector::back()\<close>: undefined on an empty vector.\<close>

definition vector_back :: "'a list \<Rightarrow> 'a option" where
  "vector_back xs = (if xs = [] then None else Some (last xs))"

text \<open>Assignment through \<^verbatim>\<open>v.back()\<close>.\<close>

definition set_back :: "'a \<Rightarrow> 'a list \<Rightarrow> 'a list" where
  "set_back x xs = butlast xs @ [x]"

text \<open>
  \<^verbatim>\<open>base_local_planner::Trajectory\<close>: the sampled velocity, the accumulated cost (negative
  means rejected) and the simulated points.
\<close>

record trajectory =
  xv :: real
  yv :: real
  thetav :: real
  cost :: real
  points :: "vec3 list"

subsection \<open>Configuration and limits\<close>

text \<open>\<^verbatim>\<open>base_local_planner::LocalPlannerLimits\<close>, the fields the planner fills in.\<close>

record limits =
  lim_max_trans_vel :: real
  lim_min_trans_vel :: real
  lim_max_vel_x :: real
  lim_min_vel_x :: real
  lim_max_vel_y :: real
  lim_min_vel_y :: real
  lim_max_rot_vel :: real
  lim_min_rot_vel :: real
  lim_acc_lim_x :: real
  lim_acc_lim_y :: real
  lim_acc_lim_theta :: real
  lim_acc_limit_trans :: real
  lim_xy_goal_tolerance :: real
  lim_yaw_goal_tolerance :: real
  lim_prune_plan :: bool
  lim_trans_stopped_vel :: real
  lim_rot_stopped_vel :: real

text \<open>\<^verbatim>\<open>LocalPlannerLimits::getAccLimits\<close>.\<close>

definition getAccLimits :: "limits \<Rightarrow> vec3" where
  "getAccLimits l = (lim_acc_lim_x l, lim_acc_lim_y l, lim_acc_lim_theta l)"

text \<open>
  \<^verbatim>\<open>HANPLocalPlannerConfig\<close>, the options \<^verbatim>\<open>reconfigureCB\<close> reads. The sample counts are
  C++ \<^verbatim>\<open>int\<close>s; they are only compared with 0 and copied, so they are \<^typ>\<open>int\<close>s here.
\<close>

record config =
  cfg_restore_defaults :: bool
  cfg_max_trans_vel :: real
  cfg_min_trans_vel :: real
  cfg_max_vel_x :: real
  cfg_min_vel_x :: real
  cfg_max_vel_y :: real
  cfg_min_vel_y :: real
  cfg_max_rot_vel :: real
  cfg_min_rot_vel :: real
  cfg_acc_lim_x :: real
  cfg_acc_lim_y :: real
  cfg_acc_lim_theta :: real
  cfg_acc_limit_trans :: real
  cfg_xy_goal_tolerance :: real
  cfg_yaw_goal_tolerance :: real
  cfg_prune_plan :: bool
  cfg_trans_stopped_vel :: real
  cfg_rot_stopped_vel :: real
  cfg_sim_time :: real
  cfg_sim_granularity :: real
  cfg_angular_sim_granularity :: real
  cfg_use_dwa :: bool
  cfg_path_distance_bias :: real
  cfg_goal_distance_bias :: real
  cfg_occdist_scale :: real
  cfg_stop_time_buffer :: real
  cfg_oscillation_reset_dist :: real
  cfg_oscillation_reset_angle :: real
  cfg_forward_point_distance :: real
  cfg_max_scaling_factor :: real
  cfg_scaling_speed :: real
  cfg_vx_samples :: int
  cfg_vy_samples :: int
  cfg_vth_samples :: int

subsection \<open>The critics and the other collaborators, as far as the planner configures them\<close>

text \<open>
  \<^verbatim>\<open>base_local_planner::MapGridCostFunction\<close>: the values given to \<^verbatim>\<open>setScale\<close>,
  \<^verbatim>\<open>setXShift\<close>, \<^verbatim>\<open>setStopOnFailure\<close> and \<^verbatim>\<open>setTargetPoses\<close>.
\<close>

record map_grid_cost =
  mg_scale :: real
  mg_xshift :: real
  mg_stop_on_failure :: bool
  mg_target_poses :: plan

text \<open>
  \<^verbatim>\<open>base_local_planner::ObstacleCostFunction\<close>: the values given to \<^verbatim>\<open>setScale\<close>,
  \<^verbatim>\<open>setParams\<close>, \<^verbatim>\<open>setFootprint\<close> and \<^verbatim>\<open>setSumScores\<close>.
\<close>

record obstacle_cost =
  oc_scale :: real
  oc_max_trans_vel :: real
  oc_max_scaling_factor :: real
  oc_scaling_speed :: real
  oc_footprint :: "vec3 list"
  oc_sum_scores :: bool

text \<open>
  Modelled from the spec: the state of \<^verbatim>\<open>base_local_planner::OscillationCostFunction\<close>,
  whose source is not in this repository. The spec's data model (section 3, Oscillation
  Flags, and section 4.3, a state machine per axis plus the lock pose) gives it as, per axis
  x, y and theta, a pair of booleans (positive direction locked, negative direction locked)
  and the pose at which the lock was set, and the configured reset distance and angle.
\<close>

record oscillation_cost =
  x_pos_locked :: bool
  x_neg_locked :: bool
  y_pos_locked :: bool
  y_neg_locked :: bool
  theta_pos_locked :: bool
  theta_neg_locked :: bool
  x_lock_pose :: vec3
  y_lock_pose :: vec3
  theta_lock_pose :: vec3
  oscillation_reset_dist :: real
  oscillation_reset_angle :: real

text \<open>
  Modelled from the spec: \<^verbatim>\<open>OscillationCostFunction::resetOscillationFlags\<close>, which is not
  in this repository. It clears every lock (spec, sections 3 and 4.3: the flags are reset, a
  lock is cleared, when a new plan is set).
\<close>

definition resetOscillationFlags :: "oscillation_cost \<Rightarrow> oscillation_cost" where
  "resetOscillationFlags oc =
     oc\<lparr>x_pos_locked := False, x_neg_locked := False,
        y_pos_locked := False, y_neg_locked := False,
        theta_pos_locked := False, theta_neg_locked := False\<rparr>"

text \<open>
  Modelled from the spec: \<^verbatim>\<open>OscillationCostFunction::setOscillationResetDist\<close>, which is
  not in this repository. It stores the configured reset distance and angle.
\<close>

definition setOscillationResetDist :: "real \<Rightarrow> real \<Rightarrow> oscillation_cost \<Rightarrow> oscillation_cost" where
  "setOscillationResetDist reset_dist reset_angle oc =
     oc\<lparr>oscillation_reset_dist := reset_dist, oscillation_reset_angle := reset_angle\<rparr>"

text \<open>Whether any lock is set.\<close>

definition any_lock :: "oscillation_cost \<Rightarrow> bool" where
  "any_lock oc \<longleftrightarrow>
     x_pos_locked oc \<or> x_neg_locked oc \<or> y_pos_locked oc \<or> y_neg_locked oc \<or>
     theta_pos_locked oc \<or> theta_neg_locked oc"

text \<open>
  Modelled from the spec: how far the robot's position has moved from a lock pose, which the
  guard's reset (not in this repository) compares with its thresholds. Section 4.3: the
  linear distance for x and y, the angular distance for theta.
\<close>

definition linear_displacement :: "vec3 \<Rightarrow> vec3 \<Rightarrow> real" where
  "linear_displacement pos lock_pose =
     sqrt ((fst pos - fst lock_pose)\<^sup>2 + (fst (snd pos) - fst (snd lock_pose))\<^sup>2)"

definition angular_displacement :: "vec3 \<Rightarrow> vec3 \<Rightarrow> real" where
  "angular_displacement pos lock_pose = \<bar>snd (snd pos) - snd (snd lock_pose)\<bar>"

text \<open>
  Modelled from the spec: the transition of the oscillation guard on one axis, which is not
  in this repository. Section 4.3: after a trajectory is selected, for each axis whose
  selected velocity has a sign opposite to a currently locked sign, and whose magnitude
  exceeds the configured "stopped" threshold, record a new lock in the opposite sign (the
  direction the robot is now forbidden from resuming) together with the current pose. The
  opposite sign is opposite to the selected velocity, as in the spec's round-trip property
  (section 8): after a negative x velocity is selected, positive x is vetoed. An axis is its
  two flags (positive locked, negative locked) and its lock pose.
\<close>

definition lock_transition ::
  "real \<Rightarrow> real \<Rightarrow> vec3 \<Rightarrow> bool \<times> bool \<times> vec3 \<Rightarrow> bool \<times> bool \<times> vec3" where
  "lock_transition v stopped pos axis =
     (case axis of (pos_locked, neg_locked, lock_pose) \<Rightarrow>
        if stopped < \<bar>v\<bar> \<and> v < 0 \<and> pos_locked then (True, neg_locked, pos)
        else if stopped < \<bar>v\<bar> \<and> 0 < v \<and> neg_locked then (pos_locked, True, pos)
        else (pos_locked, neg_locked, lock_pose))"

text \<open>
  Modelled from the spec: the reset of the oscillation guard on one axis, which is not in
  this repository. Section 4.3: a lock is cleared when the robot's position has moved beyond
  the configured linear reset distance (for x and y) or angular reset distance (for theta)
  from the pose at which the lock was set.
\<close>

definition lock_reset :: "bool \<Rightarrow> bool \<times> bool \<times> vec3 \<Rightarrow> bool \<times> bool \<times> vec3" where
  "lock_reset moved_beyond axis =
     (case axis of (pos_locked, neg_locked, lock_pose) \<Rightarrow>
        if moved_beyond then (False, False, lock_pose)
        else (pos_locked, neg_locked, lock_pose))"

text \<open>
  Modelled from the spec: one axis through one update of the oscillation guard, which is not
  in this repository. Section 4.3 lists the transition and then the reset. A trajectory of
  negative cost carries no selected velocity (section 4.4), so it makes no transition; the
  reset applies in every update. \<open>moved_beyond\<close> tells whether the robot has moved beyond
  the axis's reset threshold from a given lock pose.
\<close>

definition update_axis ::
  "bool \<Rightarrow> real \<Rightarrow> real \<Rightarrow> vec3 \<Rightarrow> (vec3 \<Rightarrow> bool) \<Rightarrow> bool \<times> bool \<times> vec3 \<Rightarrow> bool \<times> bool \<times> vec3" where
  "update_axis selected v stopped pos moved_beyond axis =
     (let axis = (if selected then lock_transition v stopped pos axis else axis)
      in lock_reset (moved_beyond (snd (snd axis))) axis)"

text \<open>
  Modelled from the spec: \<^verbatim>\<open>OscillationCostFunction::updateOscillationFlags\<close>, which is not
  in this repository. Section 4.3 on each of the axes x, y and theta, with the linear reset
  distance for x and y and the angular reset distance for theta. The call (line 581) passes
  the robot position, the selected trajectory and one "stopped" threshold, which serves
  every axis.
\<close>

definition updateOscillationFlags ::
  "vec3 \<Rightarrow> trajectory \<Rightarrow> real \<Rightarrow> oscillation_cost \<Rightarrow> oscillation_cost" where
  "updateOscillationFlags pos traj min_vel_trans oc =
     (let selected = (0 \<le> cost traj);
          x_axis = update_axis selected (xv traj) min_vel_trans pos
                     (\<lambda>lock_pose. oscillation_reset_dist oc < linear_displacement pos lock_pose)
                     (x_pos_locked oc, x_neg_locked oc, x_lock_pose oc);
          y_axis = update_axis selected (yv traj) min_vel_trans pos
                     (\<lambda>lock_pose. oscillation_reset_dist oc < linear_displacement pos lock_pose)
                     (y_pos_locked oc, y_neg_locked oc, y_lock_pose oc);
          theta_axis = update_axis selected (thetav traj) min_vel_trans pos
                     (\<lambda>lock_pose. oscillation_reset_angle oc < angular_displacement pos lock_pose)
                     (theta_pos_locked oc, theta_neg_locked oc, theta_lock_pose oc)
      in oc\<lparr>x_pos_locked := fst x_axis, x_neg_locked := fst (snd x_axis),
            x_lock_pose := snd (snd x_axis),
            y_pos_locked := fst y_axis, y_neg_locked := fst (snd y_axis),
            y_lock_pose := snd (snd y_axis),
            theta_pos_locked := fst theta_axis, theta_neg_locked := fst (snd theta_axis),
            theta_lock_pose := snd (snd theta_axis)\<rparr>)"

text \<open>
  Every lock of \<open>oc\<close> from whose lock pose the position \<open>pos\<close> has not moved beyond the reset
  distance (x and y) or the reset angle (theta) is still set in \<open>oc'\<close>.
\<close>

definition locks_survive :: "vec3 \<Rightarrow> oscillation_cost \<Rightarrow> oscillation_cost \<Rightarrow> bool" where
  "locks_survive pos oc oc' \<longleftrightarrow>
     (linear_displacement pos (x_lock_pose oc) \<le> oscillation_reset_dist oc \<longrightarrow>
        (x_pos_locked oc \<longrightarrow> x_pos_locked oc') \<and> (x_neg_locked oc \<longrightarrow> x_neg_locked oc')) \<and>
     (linear_displacement pos (y_lock_pose oc) \<le> oscillation_reset_dist oc \<longrightarrow>
        (y_pos_locked oc \<longrightarrow> y_pos_locked oc') \<and> (y_neg_locked oc \<longrightarrow> y_neg_locked oc')) \<and>
     (angular_displacement pos (theta_lock_pose oc) \<le> oscillation_reset_angle oc \<longrightarrow>
        (theta_pos_locked oc \<longrightarrow> theta_pos_locked oc') \<and>
        (theta_neg_locked oc \<longrightarrow> theta_neg_locked oc'))"

text \<open>
  Modelled from the spec: the state of \<^verbatim>\<open>base_local_planner::LatchedStopRotateController\<close>,
  whose source is not in this repository. The spec's data model (section 3, Latch State)
  gives it as the boolean "currently rotating in place to finish the goal" and the remembered
  goal pose.
\<close>

record latch_state =
  latched_rotating :: bool
  remembered_goal :: vec3

text \<open>
  Modelled from the spec: \<^verbatim>\<open>LatchedStopRotateController::resetLatching\<close>, which is not in
  this repository. It clears the latch (spec, section 3: the latch state is reset whenever a
  new plan is supplied).
\<close>

definition resetLatching :: "latch_state \<Rightarrow> latch_state" where
  "resetLatching l = l\<lparr>latched_rotating := False\<rparr>"

text \<open>
  \<^verbatim>\<open>base_local_planner::SimpleTrajectoryGenerator\<close>: the arguments of the last
  \<^verbatim>\<open>setParameters\<close> and of the last \<^verbatim>\<open>initialise\<close>.
\<close>

record generator_state =
  gen_sim_time :: real
  gen_sim_granularity :: real
  gen_angular_sim_granularity :: real
  gen_use_dwa :: bool
  gen_sim_period :: real
  gen_pos :: vec3
  gen_vel :: vec3
  gen_goal :: vec3
  gen_limits :: "limits option"
  gen_vsamples :: "int \<times> int \<times> int"

definition setParameters ::
  "real \<Rightarrow> real \<Rightarrow> real \<Rightarrow> bool \<Rightarrow> real \<Rightarrow> generator_state \<Rightarrow> generator_state" where
  "setParameters st sg asg dwa sp g =
     g\<lparr>gen_sim_time := st, gen_sim_granularity := sg, gen_angular_sim_granularity := asg,
       gen_use_dwa := dwa, gen_sim_period := sp\<rparr>"

definition initialise ::
  "vec3 \<Rightarrow> vec3 \<Rightarrow> vec3 \<Rightarrow> limits \<Rightarrow> int \<times> int \<times> int \<Rightarrow> generator_state \<Rightarrow> generator_state" where
  "initialise p v g l vs gen =
     gen\<lparr>gen_pos := p, gen_vel := v, gen_goal := g, gen_limits := Some l, gen_vsamples := vs\<rparr>"

text \<open>
  \<^verbatim>\<open>costmap_2d::Costmap2DROS\<close>, the object behind \<^verbatim>\<open>costmap_ros_\<close>: what it answers when
  asked. \<open>getRobotPose\<close> is the returned flag and the pose written to the out-parameter.
\<close>

record costmap_2d_ros =
  getRobotPose :: "bool \<times> tf_pose"
  getBaseFrameID :: string
  getGlobalFrameID :: string
  getRobotFootprint :: "vec3 list"

text \<open>
  The point cloud behind \<^verbatim>\<open>traj_cloud_\<close>; a point is x, y, z, \<^verbatim>\<open>path_cost\<close> and
  \<^verbatim>\<open>total_cost\<close>, the fields the planner writes.
\<close>

record traj_cloud_state =
  cloud_frame_id :: string
  cloud_stamp :: real
  cloud_width :: nat
  cloud_height :: nat
  cloud_points :: "(real \<times> real \<times> real \<times> real \<times> real) list"

text \<open>\<^verbatim>\<open>pcl::PointCloud::push_back\<close>.\<close>

definition cloud_push_back ::
  "real \<times> real \<times> real \<times> real \<times> real \<Rightarrow> traj_cloud_state \<Rightarrow> traj_cloud_state" where
  "cloud_push_back pt tc =
     tc\<lparr>cloud_points := cloud_points tc @ [pt],
        cloud_width := length (cloud_points tc) + 1, cloud_height := 1\<rparr>"

subsection \<open>What a call emits\<close>

text \<open>
  The diagnostics of level error, warning and info, and the published messages, in the order
  of emission. Debug-level messages are left out.
\<close>

datatype diagnostic =
    ErrorNotInitialized
  | ErrorNoRobotPose
  | ErrorNoLocalPlan
  | WarnEmptyTransformedPlan
  | WarnFailedToProducePath
  | WarnInvalidTrajectory
  | WarnVxSamples
  | WarnVySamples
  | WarnVthSamples
  | InfoGotNewPlan
  | InfoGoalReached

datatype emitted =
    Diagnostic diagnostic
  | GlobalPlanPublished plan
  | LocalPlanPublished plan
  | PointHeadPublished point_stamped
  | TrajCloudPublished traj_cloud_state
  | CostCloudPublished "int \<Rightarrow> int \<Rightarrow> real \<Rightarrow> (bool \<times> real \<times> real \<times> real \<times> real) option"

subsection \<open>The planner object\<close>

text \<open>The six critics in the order \<^verbatim>\<open>initialize\<close> hands them to the scored sampling planner.\<close>

record critics =
  critic_oscillation :: oscillation_cost
  critic_obstacle :: obstacle_cost
  critic_goal_front :: map_grid_cost
  critic_alignment :: map_grid_cost
  critic_path :: map_grid_cost
  critic_goal :: map_grid_cost

text \<open>
  The members of \<^verbatim>\<open>HANPLocalPlanner\<close> (the source's names without the trailing
  underscore; \<^verbatim>\<open>setup_\<close> is \<open>setup_done\<close>). \<open>'u\<close> is the state of \<^verbatim>\<open>planner_util_\<close> (the stored global plan, the current
  limits, the costmap), which the planner never inspects itself.
\<close>

record 'u planner =
  initialized :: bool
  setup_done :: bool
  default_config :: config
  planner_util :: 'u
  generator :: generator_state
  sim_time :: real
  sim_period :: real
  pdist_scale :: real
  gdist_scale :: real
  occdist_scale :: real
  stop_time_buffer :: real
  forward_point_distance :: real
  cheat_factor :: real
  path_costs :: "map_grid_cost option"
  goal_costs :: "map_grid_cost option"
  goal_front_costs :: "map_grid_cost option"
  alignment_costs :: "map_grid_cost option"
  obstacle_costs :: "obstacle_cost option"
  oscillation_costs :: oscillation_cost
  vsamples :: "int \<times> int \<times> int"
  costmap_ros :: "costmap_2d_ros option"
  current_pose :: tf_pose
  latchedStopRotateController :: latch_state
  global_plan :: plan
  result_traj :: trajectory
  traj_cloud :: "traj_cloud_state option"
  publish_traj_pc :: bool
  publish_cost_grid_pc :: bool

text \<open>
  The answer of \<^verbatim>\<open>computeVelocityCommandsStopRotate\<close>: the library controller may ask the
  planner's \<^verbatim>\<open>checkTrajectory\<close> callback any number of times before it finishes with its
  return value, the command and its own new state.
\<close>

datatype stop_rotate =
    Finished bool twist latch_state
  | ObstacleCheck vec3 vec3 vec3 "bool \<Rightarrow> stop_rotate"

text \<open>
  What the libraries compute, the narrowing of a double to \<^verbatim>\<open>float\<close>, and the contents of a
  default-constructed \<^verbatim>\<open>tf::Stamped<tf::Pose>\<close>, whose origin and rotation the constructor
  does not initialise. Nothing is assumed about any of them.
\<close>

record 'u ext =
  to_float :: "real \<Rightarrow> real"
  default_constructed_pose :: tf_pose
  time_now :: real
  getRobotVel :: tf_pose
  util_reconfigureCB :: "limits \<Rightarrow> bool \<Rightarrow> 'u \<Rightarrow> 'u"
  getResolution :: "'u \<Rightarrow> real"
  getCost :: "'u \<Rightarrow> int \<Rightarrow> int \<Rightarrow> real"
  getCurrentLimits :: "'u \<Rightarrow> limits"
  util_setPlan :: "plan \<Rightarrow> 'u \<Rightarrow> bool \<times> 'u"
  getLocalPlan :: "tf_pose \<Rightarrow> 'u \<Rightarrow> bool \<times> plan \<times> 'u"
  isPositionReached :: "latch_state \<Rightarrow> 'u \<Rightarrow> tf_pose \<Rightarrow> bool \<times> latch_state"
  latch_isGoalReached :: "latch_state \<Rightarrow> 'u \<Rightarrow> tf_pose \<Rightarrow> bool \<times> latch_state"
  computeVelocityCommandsStopRotate ::
    "twist \<Rightarrow> vec3 \<Rightarrow> real \<Rightarrow> 'u \<Rightarrow> tf_pose \<Rightarrow> latch_state \<Rightarrow> stop_rotate"
  generateTrajectory :: "generator_state \<Rightarrow> vec3 \<Rightarrow> vec3 \<Rightarrow> vec3 \<Rightarrow> trajectory"
  scoreTrajectory :: "critics \<Rightarrow> 'u \<Rightarrow> trajectory \<Rightarrow> real \<Rightarrow> real"
  findBestTrajectory ::
    "generator_state \<Rightarrow> critics \<Rightarrow> 'u \<Rightarrow> trajectory \<Rightarrow> trajectory \<times> trajectory list"
  mg_getCellCosts :: "map_grid_cost \<Rightarrow> int \<Rightarrow> int \<Rightarrow> real"
  mg_obstacleCosts :: "map_grid_cost \<Rightarrow> real"
  mg_unreachableCellCosts :: "map_grid_cost \<Rightarrow> real"

text \<open>The constructor of \<^verbatim>\<open>Eigen::Vector3f\<close> on three doubles: each is narrowed.\<close>

definition Vector3f :: "'u ext \<Rightarrow> real \<Rightarrow> real \<Rightarrow> real \<Rightarrow> vec3" where
  "Vector3f E x y z = (to_float E x, to_float E y, to_float E z)"

text \<open>
  The critics as the scored sampling planner reaches them, through the pointers stored by
  \<^verbatim>\<open>initialize\<close>.
\<close>

definition critics_of :: "'u planner \<Rightarrow> critics option" where
  "critics_of st = do {
     oc \<leftarrow> obstacle_costs st;
     gf \<leftarrow> goal_front_costs st;
     al \<leftarrow> alignment_costs st;
     pc \<leftarrow> path_costs st;
     gc \<leftarrow> goal_costs st;
     Some \<lparr>critic_oscillation = oscillation_costs st, critic_obstacle = oc,
           critic_goal_front = gf, critic_alignment = al, critic_path = pc, critic_goal = gc\<rparr>
   }"

subsection \<open>reconfigureCB\<close>

text \<open>
  The configuration that a call applies: the stored defaults when the planner is set up and
  the caller asks to restore them, the supplied configuration otherwise (lines 60 to 64).
\<close>

definition applied_config :: "'u planner \<Rightarrow> config \<Rightarrow> config" where
  "applied_config st config =
     (if setup_done st \<and> cfg_restore_defaults config
      then (default_config st)\<lparr>cfg_restore_defaults := False\<rparr>
      else config)"

text \<open>Lines 71 to 88.\<close>

definition limits_of_config :: "config \<Rightarrow> limits" where
  "limits_of_config config =
     \<lparr>lim_max_trans_vel = cfg_max_trans_vel config,
      lim_min_trans_vel = cfg_min_trans_vel config,
      lim_max_vel_x = cfg_max_vel_x config,
      lim_min_vel_x = cfg_min_vel_x config,
      lim_max_vel_y = cfg_max_vel_y config,
      lim_min_vel_y = cfg_min_vel_y config,
      lim_max_rot_vel = cfg_max_rot_vel config,
      lim_min_rot_vel = cfg_min_rot_vel config,
      lim_acc_lim_x = cfg_acc_lim_x config,
      lim_acc_lim_y = cfg_acc_lim_y config,
      lim_acc_lim_theta = cfg_acc_lim_theta config,
      lim_acc_limit_trans = cfg_acc_limit_trans config,
      lim_xy_goal_tolerance = cfg_xy_goal_tolerance config,
      lim_yaw_goal_tolerance = cfg_yaw_goal_tolerance config,
      lim_prune_plan = cfg_prune_plan config,
      lim_trans_stopped_vel = cfg_trans_stopped_vel config,
      lim_rot_stopped_vel = cfg_rot_stopped_vel config\<rparr>"

text \<open>
  Lines 115 to 143: the three sample counts, each coerced to 1 with a warning when it is not
  positive, and written back to the configuration.
\<close>

definition coerce_samples :: "config \<Rightarrow> (int \<times> int \<times> int) \<times> config \<times> emitted list" where
  "coerce_samples config0 =
     (let vx_samp = cfg_vx_samples config0;
          vy_samp = cfg_vy_samples config0;
          vth_samp = cfg_vth_samples config0;
          (vx_samp, config1, out1) =
            (if vx_samp \<le> 0
             then (1, config0\<lparr>cfg_vx_samples := 1\<rparr>, [Diagnostic WarnVxSamples])
             else (vx_samp, config0, []));
          (vy_samp, config2, out2) =
            (if vy_samp \<le> 0
             then (1, config1\<lparr>cfg_vy_samples := 1\<rparr>, [Diagnostic WarnVySamples])
             else (vy_samp, config1, []));
          (vth_samp, config3, out3) =
            (if vth_samp \<le> 0
             then (1, config2\<lparr>cfg_vth_samples := 1\<rparr>, [Diagnostic WarnVthSamples])
             else (vth_samp, config2, []))
      in ((vx_samp, vy_samp, vth_samp), config3, out1 @ out2 @ out3))"

text \<open>
  \<^verbatim>\<open>reconfigureCB\<close> (lines 56 to 144). The configuration is passed by reference, so the
  configuration as the function leaves it is part of the result.
\<close>

definition reconfigureCB ::
  "'u ext \<Rightarrow> config \<Rightarrow> 'u planner \<Rightarrow> (config \<times> 'u planner \<times> emitted list) option" where
  "reconfigureCB E config0 st0 = do {
     let config = applied_config st0 config0;
     let st = (if \<not> setup_done st0 then st0\<lparr>default_config := config, setup_done := True\<rparr> else st0);
     let st = st\<lparr>planner_util :=
                util_reconfigureCB E (limits_of_config config) (cfg_restore_defaults config)
                  (planner_util st)\<rparr>;
     let st = st\<lparr>generator :=
                setParameters (cfg_sim_time config) (cfg_sim_granularity config)
                  (cfg_angular_sim_granularity config) (cfg_use_dwa config) (sim_period st)
                  (generator st)\<rparr>;
     let st = st\<lparr>sim_time := cfg_sim_time config\<rparr>;
     let resolution = getResolution E (planner_util st);
     let st = st\<lparr>pdist_scale := cfg_path_distance_bias config\<rparr>;
     pc \<leftarrow> path_costs st;
     let st = st\<lparr>path_costs := Some (pc\<lparr>mg_scale := resolution * pdist_scale st * 0.5\<rparr>)\<rparr>;
     al \<leftarrow> alignment_costs st;
     let st = st\<lparr>alignment_costs := Some (al\<lparr>mg_scale := resolution * pdist_scale st * 0.5\<rparr>)\<rparr>;
     let st = st\<lparr>gdist_scale := cfg_goal_distance_bias config\<rparr>;
     gc \<leftarrow> goal_costs st;
     let st = st\<lparr>goal_costs := Some (gc\<lparr>mg_scale := resolution * gdist_scale st * 0.5\<rparr>)\<rparr>;
     gf \<leftarrow> goal_front_costs st;
     let st = st\<lparr>goal_front_costs := Some (gf\<lparr>mg_scale := resolution * gdist_scale st * 0.5\<rparr>)\<rparr>;
     let st = st\<lparr>occdist_scale := cfg_occdist_scale config\<rparr>;
     oc \<leftarrow> obstacle_costs st;
     let st = st\<lparr>obstacle_costs := Some (oc\<lparr>oc_scale := resolution * occdist_scale st\<rparr>)\<rparr>;
     let st = st\<lparr>stop_time_buffer := cfg_stop_time_buffer config\<rparr>;
     let st = st\<lparr>oscillation_costs :=
                setOscillationResetDist (cfg_oscillation_reset_dist config)
                  (cfg_oscillation_reset_angle config) (oscillation_costs st)\<rparr>;
     let st = st\<lparr>forward_point_distance := cfg_forward_point_distance config\<rparr>;
     gf \<leftarrow> goal_front_costs st;
     let st = st\<lparr>goal_front_costs := Some (gf\<lparr>mg_xshift := forward_point_distance st\<rparr>)\<rparr>;
     al \<leftarrow> alignment_costs st;
     let st = st\<lparr>alignment_costs := Some (al\<lparr>mg_xshift := forward_point_distance st\<rparr>)\<rparr>;
     oc \<leftarrow> obstacle_costs st;
     let st = st\<lparr>obstacle_costs :=
                Some (oc\<lparr>oc_max_trans_vel := cfg_max_trans_vel config,
                         oc_max_scaling_factor := cfg_max_scaling_factor config,
                         oc_scaling_speed := cfg_scaling_speed config\<rparr>)\<rparr>;
     let (samples, config, out) = coerce_samples config;
     let st = st\<lparr>vsamples := samples\<rparr>;
     Some (config, st, out)
   }"

subsection \<open>setPlan and isGoalReached\<close>

text \<open>\<^verbatim>\<open>setPlan\<close> (lines 245 to 259).\<close>

definition setPlan :: "'u ext \<Rightarrow> plan \<Rightarrow> 'u planner \<Rightarrow> bool \<times> 'u planner \<times> emitted list" where
  "setPlan E orig_global_plan st =
     (if \<not> initialized st then (False, st, [Diagnostic ErrorNotInitialized])
      else
        let st = st\<lparr>latchedStopRotateController :=
                     resetLatching (latchedStopRotateController st)\<rparr>;
            st = st\<lparr>oscillation_costs := resetOscillationFlags (oscillation_costs st)\<rparr>;
            (ok, u) = util_setPlan E orig_global_plan (planner_util st)
        in (ok, st\<lparr>planner_util := u\<rparr>, [Diagnostic InfoGotNewPlan]))"

text \<open>\<^verbatim>\<open>isGoalReached\<close> (lines 261 to 283).\<close>

definition isGoalReached :: "'u ext \<Rightarrow> 'u planner \<Rightarrow> (bool \<times> 'u planner \<times> emitted list) option" where
  "isGoalReached E st =
     (if \<not> initialized st then Some (False, st, [Diagnostic ErrorNotInitialized])
      else do {
        c \<leftarrow> costmap_ros st;
        let st = st\<lparr>current_pose := snd (getRobotPose c)\<rparr>;
        if \<not> fst (getRobotPose c) then Some (False, st, [Diagnostic ErrorNoRobotPose])
        else do {
          let (reached, l) =
            latch_isGoalReached E (latchedStopRotateController st) (planner_util st)
              (current_pose st);
          let st = st\<lparr>latchedStopRotateController := l\<rparr>;
          if reached then Some (True, st, [Diagnostic InfoGoalReached])
          else Some (False, st, [])
        }
      })"

subsection \<open>getCellCosts, checkTrajectory, updatePlanAndLocalCosts\<close>

text \<open>\<^verbatim>\<open>costmap_2d::INSCRIBED_INFLATED_OBSTACLE\<close>.\<close>

definition INSCRIBED_INFLATED_OBSTACLE :: real where
  "INSCRIBED_INFLATED_OBSTACLE = 253"

text \<open>
  \<^verbatim>\<open>getCellCosts\<close> (lines 448 to 464): the returned flag and the four out-parameters;
  \<open>total_cost\<close> keeps the caller's value when the flag is false.
\<close>

definition getCellCosts ::
  "'u ext \<Rightarrow> 'u planner \<Rightarrow> int \<Rightarrow> int \<Rightarrow> real \<Rightarrow> (bool \<times> real \<times> real \<times> real \<times> real) option" where
  "getCellCosts E st cx cy total_cost = do {
     pc \<leftarrow> path_costs st;
     let path_cost = mg_getCellCosts E pc cx cy;
     gc \<leftarrow> goal_costs st;
     let goal_cost = mg_getCellCosts E gc cx cy;
     let occ_cost = getCost E (planner_util st) cx cy;
     if path_cost = mg_obstacleCosts E pc \<or> path_cost = mg_unreachableCellCosts E pc \<or>
        occ_cost \<ge> INSCRIBED_INFLATED_OBSTACLE
     then Some (False, path_cost, goal_cost, occ_cost, total_cost)
     else do {
       let resolution = getResolution E (planner_util st);
       let total_cost = pdist_scale st * resolution * path_cost +
                        gdist_scale st * resolution * goal_cost + occdist_scale st * occ_cost;
       Some (True, path_cost, goal_cost, occ_cost, total_cost)
     }
   }"

text \<open>\<^verbatim>\<open>checkTrajectory\<close> (lines 466 to 482).\<close>

definition checkTrajectory ::
  "'u ext \<Rightarrow> vec3 \<Rightarrow> vec3 \<Rightarrow> vec3 \<Rightarrow> 'u planner \<Rightarrow> (bool \<times> 'u planner \<times> emitted list) option" where
  "checkTrajectory E pos vel vel_samples st = do {
     let st = st\<lparr>oscillation_costs := resetOscillationFlags (oscillation_costs st)\<rparr>;
     goal_pose \<leftarrow> vector_back (global_plan st);
     let goal = Vector3f E (position_x goal_pose) (position_y goal_pose)
                  (orientation_yaw goal_pose);
     let limits = getCurrentLimits E (planner_util st);
     let st = st\<lparr>generator := initialise pos vel goal limits (vsamples st) (generator st)\<rparr>;
     let traj = generateTrajectory E (generator st) pos vel vel_samples;
     cr \<leftarrow> critics_of st;
     let cost = scoreTrajectory E cr (planner_util st) traj (- 1);
     if cost \<ge> 0 then Some (True, st, [])
     else Some (False, st, [Diagnostic WarnInvalidTrajectory])
   }"

text \<open>\<^verbatim>\<open>updatePlanAndLocalCosts\<close> (lines 484 to 523).\<close>

definition updatePlanAndLocalCosts ::
  "'u ext \<Rightarrow> tf_pose \<Rightarrow> plan \<Rightarrow> 'u planner \<Rightarrow> 'u planner option" where
  "updatePlanAndLocalCosts E global_pose new_plan st = do {
     let st = st\<lparr>global_plan := new_plan\<rparr>;
     pc \<leftarrow> path_costs st;
     let st = st\<lparr>path_costs := Some (pc\<lparr>mg_target_poses := global_plan st\<rparr>)\<rparr>;
     gc \<leftarrow> goal_costs st;
     let st = st\<lparr>goal_costs := Some (gc\<lparr>mg_target_poses := global_plan st\<rparr>)\<rparr>;
     goal_pose \<leftarrow> vector_back (global_plan st);
     let pos = Vector3f E (origin_x global_pose) (origin_y global_pose)
                 (rotation_yaw global_pose);
     let sq_dist =
       (fst pos - position_x goal_pose) * (fst pos - position_x goal_pose) +
       (fst (snd pos) - position_y goal_pose) * (fst (snd pos) - position_y goal_pose);
     let front_global_plan = global_plan st;
     let angle_to_goal =
       atan2 (position_y goal_pose - fst (snd pos)) (position_x goal_pose - fst pos);
     b \<leftarrow> vector_back front_global_plan;
     let front_global_plan =
       set_back (b\<lparr>position_x := position_x b + forward_point_distance st * cos angle_to_goal\<rparr>)
         front_global_plan;
     b \<leftarrow> vector_back front_global_plan;
     let front_global_plan =
       set_back (b\<lparr>position_y := position_y b + forward_point_distance st * sin angle_to_goal\<rparr>)
         front_global_plan;
     gf \<leftarrow> goal_front_costs st;
     let st = st\<lparr>goal_front_costs := Some (gf\<lparr>mg_target_poses := front_global_plan\<rparr>)\<rparr>;
     if sq_dist > forward_point_distance st * forward_point_distance st * cheat_factor st
     then do {
       let resolution = getResolution E (planner_util st);
       al \<leftarrow> alignment_costs st;
       let st = st\<lparr>alignment_costs := Some (al\<lparr>mg_scale := resolution * pdist_scale st * 0.5\<rparr>)\<rparr>;
       al \<leftarrow> alignment_costs st;
       Some (st\<lparr>alignment_costs := Some (al\<lparr>mg_target_poses := global_plan st\<rparr>)\<rparr>)
     }
     else do {
       al \<leftarrow> alignment_costs st;
       Some (st\<lparr>alignment_costs := Some (al\<lparr>mg_scale := 0\<rparr>)\<rparr>)
     }
   }"

subsection \<open>findBestPath and hanpComputeVelocityCommands\<close>

text \<open>
  Lines 546 to 574: the explored trajectories of non-negative cost, point by point, into the
  cloud.
\<close>

definition fill_traj_cloud :: "real \<Rightarrow> trajectory list \<Rightarrow> traj_cloud_state \<Rightarrow> traj_cloud_state" where
  "fill_traj_cloud now all_explored tc0 =
     (let tc = tc0\<lparr>cloud_points := [], cloud_width := 0, cloud_height := 0\<rparr>;
          tc = tc\<lparr>cloud_stamp := now\<rparr>
      in fold (\<lambda>t tc.
            if cost t < 0 then tc
            else fold (\<lambda>(p_x, p_y, p_th) tc. cloud_push_back (p_x, p_y, 0, p_th, cost t) tc)
                   (points t) tc)
          all_explored tc)"

text \<open>
  \<^verbatim>\<open>findBestPath\<close> (lines 525 to 597): the returned trajectory, the drive velocities
  written through the reference, the planner afterwards and what was published.
\<close>

definition findBestPath ::
  "'u ext \<Rightarrow> tf_pose \<Rightarrow> tf_pose \<Rightarrow> tf_pose \<Rightarrow> vec3 list \<Rightarrow> 'u planner \<Rightarrow>
     (trajectory \<times> tf_pose \<times> 'u planner \<times> emitted list) option" where
  "findBestPath E global_pose global_vel drive_velocities footprint_spec st = do {
     oc \<leftarrow> obstacle_costs st;
     let st = st\<lparr>obstacle_costs := Some (oc\<lparr>oc_footprint := footprint_spec\<rparr>)\<rparr>;
     let pos = Vector3f E (origin_x global_pose) (origin_y global_pose)
                 (rotation_yaw global_pose);
     let vel = Vector3f E (origin_x global_vel) (origin_y global_vel) (rotation_yaw global_vel);
     goal_pose \<leftarrow> vector_back (global_plan st);
     let goal = Vector3f E (position_x goal_pose) (position_y goal_pose)
                  (orientation_yaw goal_pose);
     let limits = getCurrentLimits E (planner_util st);
     let st = st\<lparr>generator := initialise pos vel goal limits (vsamples st) (generator st)\<rparr>;
     let st = st\<lparr>result_traj := (result_traj st)\<lparr>cost := - 7\<rparr>\<rparr>;
     cr \<leftarrow> critics_of st;
     let (best, all_explored) =
       findBestTrajectory E (generator st) cr (planner_util st) (result_traj st);
     let st = st\<lparr>result_traj := best\<rparr>;
     (st, out1) \<leftarrow>
       (if publish_traj_pc st
        then do {
          tc \<leftarrow> traj_cloud st;
          let tc = fill_traj_cloud (time_now E) all_explored tc;
          Some (st\<lparr>traj_cloud := Some tc\<rparr>, [TrajCloudPublished tc])
        }
        else Some (st, []));
     let out2 =
       (if publish_cost_grid_pc st then [CostCloudPublished (getCellCosts E st)] else []);
     let st = st\<lparr>oscillation_costs :=
                updateOscillationFlags pos (result_traj st)
                  (lim_min_trans_vel (getCurrentLimits E (planner_util st)))
                  (oscillation_costs st)\<rparr>;
     let drive_velocities =
       (if cost (result_traj st) < 0 then setIdentity drive_velocities
        else drive_velocities\<lparr>origin_x := xv (result_traj st), origin_y := yv (result_traj st),
               origin_z := 0,
               rotation_yaw := createQuaternionFromYaw (thetav (result_traj st))\<rparr>);
     Some (result_traj st, drive_velocities, st, out1 @ out2)
   }"

text \<open>The point published for the head when there is no path to look along.\<close>

definition point_head_front :: "'u ext \<Rightarrow> costmap_2d_ros \<Rightarrow> point_stamped" where
  "point_head_front E c =
     \<lparr>point_frame_id = getBaseFrameID c, point_stamp = time_now E,
      point_x = 0.1, point_y = 0.0, point_z = 1.5\<rparr>"

text \<open>
  Lines 322 and 323: the default-constructed \<^verbatim>\<open>drive_cmds\<close> with its frame set. Its origin
  and rotation are whatever the constructor left there.
\<close>

definition new_drive_cmds :: "'u ext \<Rightarrow> costmap_2d_ros \<Rightarrow> tf_pose" where
  "new_drive_cmds E c = (default_constructed_pose E)\<lparr>frame_id_tf := getBaseFrameID c\<rparr>"

text \<open>\<^verbatim>\<open>hanpComputeVelocityCommands\<close> (lines 305 to 385).\<close>

definition hanpComputeVelocityCommands ::
  "'u ext \<Rightarrow> tf_pose \<Rightarrow> twist \<Rightarrow> 'u planner \<Rightarrow> (bool \<times> twist \<times> 'u planner \<times> emitted list) option" where
  "hanpComputeVelocityCommands E global_pose cmd_vel st =
     (if \<not> initialized st then Some (False, cmd_vel, st, [Diagnostic ErrorNotInitialized])
      else do {
        let robot_vel = getRobotVel E;
        c \<leftarrow> costmap_ros st;
        let drive_cmds = new_drive_cmds E c;
        (path, drive_cmds, st, out) \<leftarrow>
          findBestPath E global_pose robot_vel drive_cmds (getRobotFootprint c) st;
        let cmd_vel = cmd_vel\<lparr>linear_x := origin_x drive_cmds, linear_y := origin_y drive_cmds,
                               angular_z := rotation_yaw drive_cmds\<rparr>;
        if cost path < 0
        then Some (False, cmd_vel, st,
                   out @ [LocalPlanPublished [], PointHeadPublished (point_head_front E c)])
        else do {
          let local_plan =
            map (\<lambda>(p_x, p_y, p_th).
                   \<lparr>header_frame_id = getGlobalFrameID c, header_stamp = time_now E,
                    position_x = p_x, position_y = p_y, position_z = 0.0,
                    orientation_yaw = createQuaternionFromYaw p_th\<rparr>)
                (points path);
          b \<leftarrow> vector_back local_plan;
          let point_head = \<lparr>point_frame_id = header_frame_id b, point_stamp = time_now E,
                            point_x = position_x b, point_y = position_y b, point_z = 1.5\<rparr>;
          Some (True, cmd_vel, st,
                out @ [LocalPlanPublished local_plan, PointHeadPublished point_head])
        }
      })"

subsection \<open>computeVelocityCommands\<close>

text \<open>
  Running the library's stop-rotate controller: each obstacle check it asks for is a call of
  \<^verbatim>\<open>checkTrajectory\<close> on the planner (the callback bound at line 429).
\<close>

primrec run_stop_rotate ::
  "'u ext \<Rightarrow> stop_rotate \<Rightarrow> 'u planner \<Rightarrow> emitted list \<Rightarrow>
     (bool \<times> twist \<times> 'u planner \<times> emitted list) option" where
  "run_stop_rotate E (Finished ok cmd_vel l) st out =
     Some (ok, cmd_vel, st\<lparr>latchedStopRotateController := l\<rparr>, out)"
| "run_stop_rotate E (ObstacleCheck pos vel vel_samples k) st out =
     (case checkTrajectory E pos vel vel_samples st of
        None \<Rightarrow> None
      | Some (r, st', out') \<Rightarrow> run_stop_rotate E (k r) st' (out @ out'))"

text \<open>\<^verbatim>\<open>computeVelocityCommands\<close> (lines 387 to 446).\<close>

definition computeVelocityCommands ::
  "'u ext \<Rightarrow> twist \<Rightarrow> 'u planner \<Rightarrow> (bool \<times> twist \<times> 'u planner \<times> emitted list) option" where
  "computeVelocityCommands E cmd_vel st = do {
     c \<leftarrow> costmap_ros st;
     let st = st\<lparr>current_pose := snd (getRobotPose c)\<rparr>;
     if \<not> fst (getRobotPose c) then Some (False, cmd_vel, st, [Diagnostic ErrorNoRobotPose])
     else do {
       let (got, transformed_plan, u) = getLocalPlan E (current_pose st) (planner_util st);
       let st = st\<lparr>planner_util := u\<rparr>;
       if \<not> got then Some (False, cmd_vel, st, [Diagnostic ErrorNoLocalPlan])
       else if transformed_plan = []
       then Some (False, cmd_vel, st, [Diagnostic WarnEmptyTransformedPlan])
       else do {
         st \<leftarrow> updatePlanAndLocalCosts E (current_pose st) transformed_plan st;
         let (reached, l) =
           isPositionReached E (latchedStopRotateController st) (planner_util st)
             (current_pose st);
         let st = st\<lparr>latchedStopRotateController := l\<rparr>;
         if reached
         then do {
           let out = [GlobalPlanPublished [], LocalPlanPublished [],
                      PointHeadPublished (point_head_front E c)];
           let limits = getCurrentLimits E (planner_util st);
           run_stop_rotate E
             (computeVelocityCommandsStopRotate E cmd_vel (getAccLimits limits) (sim_period st)
                (planner_util st) (current_pose st) (latchedStopRotateController st))
             st out
         }
         else do {
           (isOk, cmd_vel, st, out) \<leftarrow> hanpComputeVelocityCommands E (current_pose st) cmd_vel st;
           if isOk then Some (isOk, cmd_vel, st, out @ [GlobalPlanPublished transformed_plan])
           else Some (isOk, cmd_vel, st,
                      out @ [Diagnostic WarnFailedToProducePath, GlobalPlanPublished []])
         }
       }
     }
   }"

text \<open>Whether the controller's answer asks for an obstacle check at all.\<close>

definition asks_check :: "stop_rotate \<Rightarrow> bool" where
  "asks_check t = (case t of Finished ok cmd_vel l \<Rightarrow> False | ObstacleCheck pos vel vs k \<Rightarrow> True)"

subsection \<open>A concrete planner and concrete collaborators\<close>

text \<open>
  Used to instantiate the theorems below. The planner is an initialised one (every pointer
  set), standing at the origin with a one-pose plan whose goal is 3 m ahead, with a forward
  point distance of 1 and a cheat factor of 4, and with the lock on the positive x direction
  set at the origin. The collaborators
  are simple stand-ins: the plan store is the stored plan itself, the search returns the
  trajectory it was given (so it finds nothing feasible), and the stop-rotate controller asks
  for one obstacle check and reports its answer. The narrowing to \<^verbatim>\<open>float\<close> is rounding to
  the nearest binary32 value, and the default-constructed transform is far from the identity.
\<close>

text \<open>
  Rounding to the nearest IEEE binary32 value, ties to even, with the subnormal spacing
  below the exponent -126. Magnitudes that would overflow to an infinity have no real value
  and are outside this function's faithful range.
\<close>

definition binary32_round :: "real \<Rightarrow> real" where
  "binary32_round x =
     (if x = 0 then 0
      else
        let e = max \<lfloor>log 2 \<bar>x\<bar>\<rfloor> (- 126);
            ulp = 2 powr (real_of_int e - 23);
            q = x / ulp;
            n = \<lfloor>q\<rfloor>;
            m = (if q - real_of_int n < 1 / 2 \<or> (q - real_of_int n = 1 / 2 \<and> even n)
                 then n else n + 1)
        in real_of_int m * ulp)"

definition example_default_constructed_pose :: tf_pose where
  "example_default_constructed_pose =
     \<lparr>frame_id_tf = ''NO_ID'', origin_x = 7, origin_y = 8, origin_z = 9, rotation_yaw = 2\<rparr>"

definition example_limits :: limits where
  "example_limits =
     \<lparr>lim_max_trans_vel = 1, lim_min_trans_vel = 0, lim_max_vel_x = 1, lim_min_vel_x = 0,
      lim_max_vel_y = 0, lim_min_vel_y = 0, lim_max_rot_vel = 1, lim_min_rot_vel = 0,
      lim_acc_lim_x = 1, lim_acc_lim_y = 1, lim_acc_lim_theta = 1, lim_acc_limit_trans = 1,
      lim_xy_goal_tolerance = 1, lim_yaw_goal_tolerance = 1, lim_prune_plan = True,
      lim_trans_stopped_vel = 0, lim_rot_stopped_vel = 0\<rparr>"

definition example_config :: config where
  "example_config =
     \<lparr>cfg_restore_defaults = False,
      cfg_max_trans_vel = 1, cfg_min_trans_vel = 0, cfg_max_vel_x = 1, cfg_min_vel_x = 0,
      cfg_max_vel_y = 0, cfg_min_vel_y = 0, cfg_max_rot_vel = 1, cfg_min_rot_vel = 0,
      cfg_acc_lim_x = 1, cfg_acc_lim_y = 1, cfg_acc_lim_theta = 1, cfg_acc_limit_trans = 1,
      cfg_xy_goal_tolerance = 1, cfg_yaw_goal_tolerance = 1, cfg_prune_plan = True,
      cfg_trans_stopped_vel = 0, cfg_rot_stopped_vel = 0,
      cfg_sim_time = 2, cfg_sim_granularity = 1, cfg_angular_sim_granularity = 1,
      cfg_use_dwa = True, cfg_path_distance_bias = 2, cfg_goal_distance_bias = 4,
      cfg_occdist_scale = 3, cfg_stop_time_buffer = 0, cfg_oscillation_reset_dist = 1,
      cfg_oscillation_reset_angle = 1, cfg_forward_point_distance = 1,
      cfg_max_scaling_factor = 1, cfg_scaling_speed = 1,
      cfg_vx_samples = 0, cfg_vy_samples = - 2, cfg_vth_samples = 5\<rparr>"

definition example_pose :: tf_pose where
  "example_pose =
     \<lparr>frame_id_tf = ''odom'', origin_x = 0, origin_y = 0, origin_z = 0, rotation_yaw = 0\<rparr>"

definition example_goal :: pose_stamped where
  "example_goal =
     \<lparr>header_frame_id = ''odom'', header_stamp = 0, position_x = 3, position_y = 0,
      position_z = 0, orientation_yaw = 0\<rparr>"

definition example_trajectory :: trajectory where
  "example_trajectory = \<lparr>xv = 1, yv = 0, thetav = 0, cost = 1, points = [(1, 0, 0)]\<rparr>"

definition example_twist :: twist where
  "example_twist =
     \<lparr>linear_x = 1, linear_y = 1, linear_z = 0, angular_x = 0, angular_y = 0, angular_z = 1\<rparr>"

definition example_ext :: "plan ext" where
  "example_ext =
     \<lparr>to_float = binary32_round,
      default_constructed_pose = example_default_constructed_pose,
      time_now = 0,
      getRobotVel = example_pose,
      util_reconfigureCB = (\<lambda>l r u. u),
      getResolution = (\<lambda>u. 1),
      getCost = (\<lambda>u cx cy. 0),
      getCurrentLimits = (\<lambda>u. example_limits),
      util_setPlan = (\<lambda>p u. (True, p)),
      getLocalPlan = (\<lambda>p u. (True, u, u)),
      isPositionReached = (\<lambda>l u p. (latched_rotating l, l)),
      latch_isGoalReached = (\<lambda>l u p. (latched_rotating l, l)),
      computeVelocityCommandsStopRotate =
        (\<lambda>cmd acc sp u p l.
           ObstacleCheck (origin_x p, origin_y p, rotation_yaw p) (0, 0, 0) (0, 0, 1)
             (\<lambda>ok. Finished ok cmd l)),
      generateTrajectory = (\<lambda>g pos vel vs. example_trajectory),
      scoreTrajectory = (\<lambda>cr u t c. cost t),
      findBestTrajectory = (\<lambda>g cr u t. (t, [t])),
      mg_getCellCosts = (\<lambda>mg cx cy. 0),
      mg_obstacleCosts = (\<lambda>mg. 254),
      mg_unreachableCellCosts = (\<lambda>mg. 255)\<rparr>"

definition example_obstacle :: obstacle_cost where
  "example_obstacle =
     \<lparr>oc_scale = 3, oc_max_trans_vel = 1, oc_max_scaling_factor = 1, oc_scaling_speed = 1,
      oc_footprint = [], oc_sum_scores = False\<rparr>"

definition example_costmap_ros :: costmap_2d_ros where
  "example_costmap_ros =
     \<lparr>getRobotPose = (True, example_pose), getBaseFrameID = ''base_link'',
      getGlobalFrameID = ''odom'', getRobotFootprint = []\<rparr>"

definition example_critic :: map_grid_cost where
  "example_critic =
     \<lparr>mg_scale = 1, mg_xshift = 0, mg_stop_on_failure = True, mg_target_poses = []\<rparr>"

definition example_planner :: "plan planner" where
  "example_planner =
     \<lparr>initialized = True, setup_done = True, default_config = example_config,
      planner_util = [example_goal],
      generator =
        \<lparr>gen_sim_time = 2, gen_sim_granularity = 1, gen_angular_sim_granularity = 1,
         gen_use_dwa = True, gen_sim_period = 1, gen_pos = (0, 0, 0), gen_vel = (0, 0, 0),
         gen_goal = (0, 0, 0), gen_limits = None, gen_vsamples = (1, 1, 1)\<rparr>,
      sim_time = 2, sim_period = 1, pdist_scale = 2, gdist_scale = 4, occdist_scale = 3,
      stop_time_buffer = 0, forward_point_distance = 1, cheat_factor = 4,
      path_costs = Some example_critic, goal_costs = Some example_critic,
      goal_front_costs = Some example_critic, alignment_costs = Some example_critic,
      obstacle_costs = Some example_obstacle,
      oscillation_costs =
        \<lparr>x_pos_locked = True, x_neg_locked = False, y_pos_locked = False,
         y_neg_locked = False, theta_pos_locked = False, theta_neg_locked = False,
         x_lock_pose = (0, 0, 0), y_lock_pose = (0, 0, 0), theta_lock_pose = (0, 0, 0),
         oscillation_reset_dist = 1, oscillation_reset_angle = 1\<rparr>,
      vsamples = (1, 1, 5),
      costmap_ros = Some example_costmap_ros,
      current_pose = example_pose,
      latchedStopRotateController = \<lparr>latched_rotating = False, remembered_goal = (3, 0, 0)\<rparr>,
      global_plan = [example_goal],
      result_traj = example_trajectory,
      traj_cloud =
        Some \<lparr>cloud_frame_id = ''odom'', cloud_stamp = 0, cloud_width = 0, cloud_height = 0,
              cloud_points = []\<rparr>,
      publish_traj_pc = False, publish_cost_grid_pc = False\<rparr>"

text \<open>The same planner when the latch is set, so that \<open>isPositionReached\<close> of the stand-in holds.\<close>

definition example_planner_latched :: "plan planner" where
  "example_planner_latched =
     example_planner\<lparr>latchedStopRotateController :=
       \<lparr>latched_rotating = True, remembered_goal = (3, 0, 0)\<rparr>\<rparr>"

text \<open>
  A planner on which \<^verbatim>\<open>initialize\<close> was never called: the constructor (line 146) clears
  \<^verbatim>\<open>initialized_\<close> and \<^verbatim>\<open>setup_\<close> and stores no object behind any pointer.
\<close>

definition example_planner_constructed :: "plan planner" where
  "example_planner_constructed =
     example_planner\<lparr>initialized := False, setup_done := False, costmap_ros := None,
       path_costs := None, goal_costs := None, goal_front_costs := None,
       alignment_costs := None, obstacle_costs := None, traj_cloud := None\<rparr>"

lemmas example_defs = example_limits_def example_config_def example_pose_def example_goal_def
  example_trajectory_def example_twist_def example_ext_def example_critic_def
  example_obstacle_def example_costmap_ros_def example_default_constructed_pose_def
  example_planner_def example_planner_latched_def example_planner_constructed_def

section \<open>Properties\<close>

subsection \<open>Auxiliary facts\<close>

lemma binary32_round_0: "binary32_round 0 = 0"
  by (simp add: binary32_round_def)

lemma binary32_round_3: "binary32_round 3 = 3"
proof -
  have "\<lfloor>log 2 3\<rfloor> = 1"
    by (subst floor_log_eq_powr_iff) simp_all
  then show ?thesis
    by (simp add: binary32_round_def Let_def powr_minus)
qed


lemmas planner_defs = computeVelocityCommands_def updatePlanAndLocalCosts_def
  checkTrajectory_def hanpComputeVelocityCommands_def findBestPath_def critics_of_def
  vector_back_def set_back_def atan2_def resetOscillationFlags_def initialise_def
  point_head_front_def getAccLimits_def new_drive_cmds_def setIdentity_def Let_def
  Vector3f_def updateOscillationFlags_def update_axis_def lock_transition_def lock_reset_def
  linear_displacement_def angular_displacement_def binary32_round_0 binary32_round_3


lemma example_planner_critics:
  "path_costs example_planner = Some example_critic"
  "alignment_costs example_planner = Some example_critic"
  "goal_costs example_planner = Some example_critic"
  "goal_front_costs example_planner = Some example_critic"
  "obstacle_costs example_planner = Some example_obstacle"
  by (simp_all add: example_planner_def)

lemma critics_of_SomeD:
  assumes "critics_of st = Some cr"
  shows "obstacle_costs st = Some (critic_obstacle cr) \<and>
         goal_front_costs st = Some (critic_goal_front cr) \<and>
         alignment_costs st = Some (critic_alignment cr) \<and>
         path_costs st = Some (critic_path cr) \<and>
         goal_costs st = Some (critic_goal cr)"
  using assms by (auto simp add: critics_of_def split: Option.bind_splits)

text \<open>What \<^verbatim>\<open>updatePlanAndLocalCosts\<close> leaves alone.\<close>

lemma updatePlanAndLocalCosts_frame:
  assumes "updatePlanAndLocalCosts E global_pose new_plan st = Some st1"
  shows "current_pose st1 = current_pose st \<and> planner_util st1 = planner_util st \<and>
         latchedStopRotateController st1 = latchedStopRotateController st \<and>
         oscillation_costs st1 = oscillation_costs st \<and> initialized st1 = initialized st \<and>
         costmap_ros st1 = costmap_ros st \<and> global_plan st1 = new_plan"
  using assms
  by (clarsimp simp add: updatePlanAndLocalCosts_def Let_def split: Option.bind_splits if_splits)

text \<open>\<^verbatim>\<open>findBestPath\<close> returns the stored result and reads the drive velocities off it.\<close>

lemma findBestPath_result:
  assumes "findBestPath E global_pose global_vel dv0 footprint_spec st = Some (path, dv, st', out)"
  shows "path = result_traj st' \<and>
         dv = (if cost path < 0 then setIdentity dv0
               else dv0\<lparr>origin_x := xv path, origin_y := yv path, origin_z := 0,
                        rotation_yaw := createQuaternionFromYaw (thetav path)\<rparr>)"
  using assms
  by (clarsimp simp add: findBestPath_def Let_def split_def split: Option.bind_splits if_splits)

text \<open>The oscillation flags through each function that touches them.\<close>

lemma checkTrajectory_oscillation:
  assumes "checkTrajectory E pos vel vs st = Some (ok, st', out)"
  shows "oscillation_costs st' = resetOscillationFlags (oscillation_costs st)"
  using assms
  by (clarsimp simp add: checkTrajectory_def Let_def split: Option.bind_splits if_splits)

lemma resetOscillationFlags_idem:
  "resetOscillationFlags (resetOscillationFlags oc) = resetOscillationFlags oc"
  by (simp add: resetOscillationFlags_def)

lemma run_stop_rotate_oscillation:
  assumes "run_stop_rotate E t st out = Some (ok, cmd, st', out')"
  shows "oscillation_costs st' =
           (if asks_check t then resetOscillationFlags (oscillation_costs st)
            else oscillation_costs st)"
  using assms
proof (induction t arbitrary: st out)
  case (Finished b c l)
  then show ?case by (auto simp add: asks_check_def)
next
  case (ObstacleCheck pos vel vs k)
  from ObstacleCheck.prems obtain r st1 out1 where
    chk: "checkTrajectory E pos vel vs st = Some (r, st1, out1)" and
    run: "run_stop_rotate E (k r) st1 (out @ out1) = Some (ok, cmd, st', out')"
    by (auto split: option.splits)
  have "oscillation_costs st' =
          (if asks_check (k r) then resetOscillationFlags (oscillation_costs st1)
           else oscillation_costs st1)"
    using ObstacleCheck.IH [OF rangeI run] .
  with checkTrajectory_oscillation [OF chk] show ?case
    by (simp add: asks_check_def resetOscillationFlags_idem)
qed

text \<open>The guard's update keeps every lock the robot has not moved away from.\<close>

lemma linear_displacement_self: "linear_displacement pos pos = 0"
  by (simp add: linear_displacement_def)

lemma linear_displacement_nonneg: "0 \<le> linear_displacement pos lock_pose"
  by (simp add: linear_displacement_def)

lemma angular_displacement_self: "angular_displacement pos pos = 0"
  by (simp add: angular_displacement_def)

lemma angular_displacement_nonneg: "0 \<le> angular_displacement pos lock_pose"
  by (simp add: angular_displacement_def)

lemma update_axis_survives:
  assumes "\<not> moved_beyond lock_pose" "\<not> moved_beyond pos"
  shows "(pos_locked \<longrightarrow> fst (update_axis selected v stopped pos moved_beyond
                                 (pos_locked, neg_locked, lock_pose))) \<and>
         (neg_locked \<longrightarrow> fst (snd (update_axis selected v stopped pos moved_beyond
                                 (pos_locked, neg_locked, lock_pose))))"
  using assms by (simp add: update_axis_def lock_transition_def lock_reset_def Let_def)

lemma linear_axis_survives:
  assumes "linear_displacement pos lock_pose \<le> reset_dist"
  shows "(pos_locked \<longrightarrow>
            fst (update_axis selected v stopped pos
                   (\<lambda>lp. reset_dist < linear_displacement pos lp)
                   (pos_locked, neg_locked, lock_pose))) \<and>
         (neg_locked \<longrightarrow>
            fst (snd (update_axis selected v stopped pos
                   (\<lambda>lp. reset_dist < linear_displacement pos lp)
                   (pos_locked, neg_locked, lock_pose))))"
proof (rule update_axis_survives)
  from assms show "\<not> reset_dist < linear_displacement pos lock_pose" by simp
  from assms linear_displacement_nonneg [of pos lock_pose]
  show "\<not> reset_dist < linear_displacement pos pos"
    by (simp add: linear_displacement_self)
qed

lemma angular_axis_survives:
  assumes "angular_displacement pos lock_pose \<le> reset_angle"
  shows "(pos_locked \<longrightarrow>
            fst (update_axis selected v stopped pos
                   (\<lambda>lp. reset_angle < angular_displacement pos lp)
                   (pos_locked, neg_locked, lock_pose))) \<and>
         (neg_locked \<longrightarrow>
            fst (snd (update_axis selected v stopped pos
                   (\<lambda>lp. reset_angle < angular_displacement pos lp)
                   (pos_locked, neg_locked, lock_pose))))"
proof (rule update_axis_survives)
  from assms show "\<not> reset_angle < angular_displacement pos lock_pose" by simp
  from assms angular_displacement_nonneg [of pos lock_pose]
  show "\<not> reset_angle < angular_displacement pos pos"
    by (simp add: angular_displacement_self)
qed

lemma updateOscillationFlags_survives:
  "locks_survive pos oc (updateOscillationFlags pos traj min_vel_trans oc)"
  unfolding locks_survive_def updateOscillationFlags_def Let_def
  by (simp add: linear_axis_survives angular_axis_survives)

lemma updateOscillationFlags_thresholds:
  "oscillation_reset_dist (updateOscillationFlags pos traj min_vel_trans oc) =
     oscillation_reset_dist oc \<and>
   oscillation_reset_angle (updateOscillationFlags pos traj min_vel_trans oc) =
     oscillation_reset_angle oc"
  by (simp add: updateOscillationFlags_def Let_def)


lemma findBestPath_oscillation:
  assumes "findBestPath E global_pose global_vel dv0 footprint_spec st = Some (path, dv, st', out)"
  shows "oscillation_costs st' =
           updateOscillationFlags
             (Vector3f E (origin_x global_pose) (origin_y global_pose) (rotation_yaw global_pose))
             path (lim_min_trans_vel (getCurrentLimits E (planner_util st)))
             (oscillation_costs st)"
  using assms
  by (clarsimp simp add: findBestPath_def Let_def split_def split: Option.bind_splits if_splits)

lemma hanpComputeVelocityCommands_oscillation:
  assumes "hanpComputeVelocityCommands E global_pose cmd_vel st = Some (ok, cmd, st', out)"
  shows "oscillation_costs st' =
           (if initialized st
            then updateOscillationFlags
                   (Vector3f E (origin_x global_pose) (origin_y global_pose)
                      (rotation_yaw global_pose))
                   (result_traj st')
                   (lim_min_trans_vel (getCurrentLimits E (planner_util st)))
                   (oscillation_costs st)
            else oscillation_costs st)"
proof (cases "initialized st")
  case True
  with assms obtain c path dv out1 where
    "findBestPath E global_pose (getRobotVel E) (new_drive_cmds E c) (getRobotFootprint c) st =
       Some (path, dv, st', out1)"
    by (auto simp add: hanpComputeVelocityCommands_def Let_def
        split: Option.bind_splits if_splits)
  from findBestPath_oscillation [OF this] findBestPath_result [OF this] True
  show ?thesis by simp
next
  case False
  with assms show ?thesis by (simp add: hanpComputeVelocityCommands_def)
qed

lemma locks_survive_refl: "locks_survive pos oc oc"
  by (simp add: locks_survive_def)

lemma isGoalReached_oscillation:
  assumes "isGoalReached E st = Some (ok, st', out)"
  shows "oscillation_costs st' = oscillation_costs st"
  using assms
  by (auto simp add: isGoalReached_def Let_def split_def split: Option.bind_splits if_splits)

lemma reconfigureCB_oscillation:
  assumes "reconfigureCB E config st = Some (config', st', out)"
  shows "oscillation_costs st' =
           (oscillation_costs st)
             \<lparr>oscillation_reset_dist := cfg_oscillation_reset_dist (applied_config st config),
              oscillation_reset_angle := cfg_oscillation_reset_angle (applied_config st config)\<rparr>"
  using assms
  by (clarsimp simp add: reconfigureCB_def setOscillationResetDist_def Let_def split_def
      split: Option.bind_splits if_splits)

text \<open>
  Which collaborator a function consults: replacing the search leaves the stop-rotate path
  as it is, and replacing the stop-rotate controller leaves the search path as it is.
\<close>

lemma checkTrajectory_ext_findBestTrajectory:
  "checkTrajectory (E\<lparr>findBestTrajectory := f\<rparr>) pos vel vs st = checkTrajectory E pos vel vs st"
  by (simp add: checkTrajectory_def Vector3f_def Let_def cong: if_cong)

lemma run_stop_rotate_ext_findBestTrajectory:
  "run_stop_rotate (E\<lparr>findBestTrajectory := f\<rparr>) t st out = run_stop_rotate E t st out"
  by (induction t arbitrary: st out)
     (simp_all add: checkTrajectory_ext_findBestTrajectory split: option.split)

lemma updatePlanAndLocalCosts_ext:
  "updatePlanAndLocalCosts (E\<lparr>findBestTrajectory := f\<rparr>) p tp st =
     updatePlanAndLocalCosts E p tp st"
  "updatePlanAndLocalCosts (E\<lparr>computeVelocityCommandsStopRotate := g\<rparr>) p tp st =
     updatePlanAndLocalCosts E p tp st"
  by (simp_all add: updatePlanAndLocalCosts_def Vector3f_def Let_def cong: if_cong)

lemma getCellCosts_ext:
  "getCellCosts (E\<lparr>computeVelocityCommandsStopRotate := g\<rparr>) st = getCellCosts E st"
  by (simp add: getCellCosts_def fun_eq_iff Let_def cong: if_cong)

lemma findBestPath_ext:
  "findBestPath (E\<lparr>computeVelocityCommandsStopRotate := g\<rparr>) gp gv dv fp st =
     findBestPath E gp gv dv fp st"
  by (simp add: findBestPath_def getCellCosts_ext Vector3f_def Let_def split_def cong: if_cong)

lemma hanpComputeVelocityCommands_ext:
  "hanpComputeVelocityCommands (E\<lparr>computeVelocityCommandsStopRotate := g\<rparr>) gp cmd st =
     hanpComputeVelocityCommands E gp cmd st"
  by (simp add: hanpComputeVelocityCommands_def findBestPath_ext point_head_front_def
      new_drive_cmds_def Let_def split_def cong: if_cong)

text \<open>
  A cycle that cannot get the robot pose, or gets no local plan or an empty one, on a planner
  whose costmap wrapper exists: it returns false, writes only \<^verbatim>\<open>current_pose_\<close> and what
  \<^verbatim>\<open>getLocalPlan\<close> does to the plan store, and leaves the command alone.
\<close>

lemma computeVelocityCommands_aborts:
  assumes "costmap_ros st = Some c" "getRobotPose c = (got_pose, p)"
    "getLocalPlan E p (planner_util st) = (got_plan, tp, u)"
    "\<not> got_pose \<or> \<not> got_plan \<or> tp = []"
  shows "\<exists>out. computeVelocityCommands E cmd_vel st =
           Some (False, cmd_vel,
                 (if got_pose then st\<lparr>current_pose := p, planner_util := u\<rparr>
                  else st\<lparr>current_pose := p\<rparr>), out)"
  using assms(4) by (auto simp add: computeVelocityCommands_def Let_def assms(1,2,3))

subsection \<open>Reconfiguration\<close>

text \<open>
  Claim C5. After every reconfiguration of a planner whose critics exist, the critic scales
  are: resolution times path distance bias times 0.5 for the path-distance and
  heading-alignment critics, resolution times goal distance bias times 0.5 for the
  goal-distance and goal-front-alignment critics, and resolution times the obstacle bias,
  without the factor 0.5, for the obstacle critic. The resolution is the costmap's, and the
  biases are those of the configuration the call applies (the supplied one, or the stored
  defaults when it asks to restore them).
\<close>

theorem reconfigureCB_scales:
  assumes "path_costs st = Some pc" "alignment_costs st = Some al" "goal_costs st = Some gc"
    "goal_front_costs st = Some gf" "obstacle_costs st = Some oc"
  shows "\<exists>config' st' out.
           reconfigureCB E config st = Some (config', st', out) \<and>
           map_option mg_scale (path_costs st') =
             Some (getResolution E (planner_util st') *
                   cfg_path_distance_bias (applied_config st config) * 0.5) \<and>
           map_option mg_scale (alignment_costs st') =
             Some (getResolution E (planner_util st') *
                   cfg_path_distance_bias (applied_config st config) * 0.5) \<and>
           map_option mg_scale (goal_costs st') =
             Some (getResolution E (planner_util st') *
                   cfg_goal_distance_bias (applied_config st config) * 0.5) \<and>
           map_option mg_scale (goal_front_costs st') =
             Some (getResolution E (planner_util st') *
                   cfg_goal_distance_bias (applied_config st config) * 0.5) \<and>
           map_option oc_scale (obstacle_costs st') =
             Some (getResolution E (planner_util st') *
                   cfg_occdist_scale (applied_config st config))"
  using assms by (simp add: reconfigureCB_def Let_def split_def)

text \<open>
  At the concrete planner, with resolution 1 and biases 2 (path), 4 (goal) and 3 (obstacle):
  the scales are 1, 1, 2, 2 and 3.
\<close>

theorem reconfigureCB_scales_witness:
  "map_option (\<lambda>(config', st', out).
       (map_option mg_scale (path_costs st'), map_option mg_scale (alignment_costs st'),
        map_option mg_scale (goal_costs st'), map_option mg_scale (goal_front_costs st'),
        map_option oc_scale (obstacle_costs st')))
     (reconfigureCB example_ext example_config example_planner) =
   Some (Some 1, Some 1, Some 2, Some 2, Some 3)"
proof -
  from reconfigureCB_scales [OF example_planner_critics, of example_ext example_config]
  obtain config' st' out where
    "reconfigureCB example_ext example_config example_planner = Some (config', st', out)"
    "map_option mg_scale (path_costs st') = Some 1"
    "map_option mg_scale (alignment_costs st') = Some 1"
    "map_option mg_scale (goal_costs st') = Some 2"
    "map_option mg_scale (goal_front_costs st') = Some 2"
    "map_option oc_scale (obstacle_costs st') = Some 3"
    by (auto simp add: example_defs applied_config_def)
  then show ?thesis by simp
qed

text \<open>
  Claim C6. For every configuration applied to a planner whose critics exist,
  reconfiguration returns; each per-axis sample count that is not positive is coerced to 1,
  with one warning per coerced axis, and every other count is kept; the coerced counts are
  written back to the configuration; so every component of the sample-count vector is at
  least 1.
\<close>

theorem reconfigureCB_sample_counts:
  assumes "path_costs st = Some pc" "alignment_costs st = Some al" "goal_costs st = Some gc"
    "goal_front_costs st = Some gf" "obstacle_costs st = Some oc"
  shows "\<exists>config' st' out.
           reconfigureCB E config st = Some (config', st', out) \<and>
           vsamples st' =
             (if cfg_vx_samples (applied_config st config) \<le> 0 then 1
              else cfg_vx_samples (applied_config st config),
              if cfg_vy_samples (applied_config st config) \<le> 0 then 1
              else cfg_vy_samples (applied_config st config),
              if cfg_vth_samples (applied_config st config) \<le> 0 then 1
              else cfg_vth_samples (applied_config st config)) \<and>
           1 \<le> fst (vsamples st') \<and> 1 \<le> fst (snd (vsamples st')) \<and>
           1 \<le> snd (snd (vsamples st')) \<and>
           (cfg_vx_samples config', cfg_vy_samples config', cfg_vth_samples config') =
             vsamples st' \<and>
           out =
             (if cfg_vx_samples (applied_config st config) \<le> 0
              then [Diagnostic WarnVxSamples] else []) @
             (if cfg_vy_samples (applied_config st config) \<le> 0
              then [Diagnostic WarnVySamples] else []) @
             (if cfg_vth_samples (applied_config st config) \<le> 0
              then [Diagnostic WarnVthSamples] else [])"
  using assms by (simp add: reconfigureCB_def coerce_samples_def Let_def split_def)

text \<open>At the concrete configuration, whose counts are 0, -2 and 5: the vector is (1, 1, 5).\<close>

theorem reconfigureCB_sample_counts_witness:
  "cfg_vx_samples example_config = 0 \<and> cfg_vy_samples example_config = - 2 \<and>
   cfg_vth_samples example_config = 5 \<and>
   map_option (\<lambda>(config', st', out). (vsamples st', out))
     (reconfigureCB example_ext example_config example_planner) =
   Some ((1, 1, 5), [Diagnostic WarnVxSamples, Diagnostic WarnVySamples])"
proof -
  from reconfigureCB_sample_counts [OF example_planner_critics, of example_ext example_config]
  obtain config' st' out where
    "reconfigureCB example_ext example_config example_planner = Some (config', st', out)"
    "vsamples st' = (1, 1, 5)"
    "out = [Diagnostic WarnVxSamples, Diagnostic WarnVySamples]"
    by (auto simp add: example_defs applied_config_def)
  then show ?thesis by (simp add: example_config_def)
qed

subsection \<open>setPlan and isGoalReached\<close>

text \<open>
  Claim C7. For every call of \<^verbatim>\<open>setPlan\<close> on an initialised planner, the latch is cleared,
  every oscillation flag is cleared, the plan store is the one its own \<^verbatim>\<open>setPlan\<close> leaves
  for the supplied plan, the returned flag is that of this plan replacement, and nothing else
  of the planner changes.
\<close>

theorem setPlan_resets:
  assumes "initialized st"
  shows "fst (setPlan E new_plan st) = fst (util_setPlan E new_plan (planner_util st)) \<and>
         fst (snd (setPlan E new_plan st)) =
           st\<lparr>latchedStopRotateController :=
                (latchedStopRotateController st)\<lparr>latched_rotating := False\<rparr>,
              oscillation_costs :=
                (oscillation_costs st)
                  \<lparr>x_pos_locked := False, x_neg_locked := False, y_pos_locked := False,
                   y_neg_locked := False, theta_pos_locked := False,
                   theta_neg_locked := False\<rparr>,
              planner_util := snd (util_setPlan E new_plan (planner_util st))\<rparr>"
  using assms
  by (simp add: setPlan_def Let_def split_def resetLatching_def resetOscillationFlags_def)

text \<open>
  At the concrete planner with its latch and its x lock set, and a new empty plan: the call
  succeeds, the latch and the lock are cleared and the store holds the new plan.
\<close>

theorem setPlan_resets_witness:
  "initialized example_planner_latched \<and>
   latched_rotating (latchedStopRotateController example_planner_latched) \<and>
   x_pos_locked (oscillation_costs example_planner_latched) \<and>
   fst (setPlan example_ext [] example_planner_latched) \<and>
   \<not> latched_rotating
        (latchedStopRotateController (fst (snd (setPlan example_ext [] example_planner_latched)))) \<and>
   \<not> any_lock (oscillation_costs (fst (snd (setPlan example_ext [] example_planner_latched)))) \<and>
   planner_util (fst (snd (setPlan example_ext [] example_planner_latched))) = []"
proof -
  have i: "initialized example_planner_latched"
    by (simp add: example_defs)
  from setPlan_resets [OF i, of example_ext "[]"] i show ?thesis
    by (simp add: example_defs any_lock_def)
qed

text \<open>
  Claim C10. On a planner whose costmap wrapper exists once it is initialised,
  \<^verbatim>\<open>isGoalReached\<close> always returns; it returns false when the planner is not initialised
  and when the robot pose cannot be obtained; and it returns true only when the planner is
  initialised, the pose was obtained and the latched stop-rotate controller's goal check on
  that pose succeeds.
\<close>

theorem isGoalReached_total:
  assumes "initialized st \<longrightarrow> costmap_ros st \<noteq> None"
  shows "\<exists>ok st' out.
           isGoalReached E st = Some (ok, st', out) \<and>
           (\<not> initialized st \<longrightarrow> \<not> ok) \<and>
           (\<forall>c. costmap_ros st = Some c \<and> \<not> fst (getRobotPose c) \<longrightarrow> \<not> ok) \<and>
           (ok \<longrightarrow> initialized st \<and>
              (\<exists>c. costmap_ros st = Some c \<and> fst (getRobotPose c) \<and>
                 fst (latch_isGoalReached E (latchedStopRotateController st) (planner_util st)
                        (snd (getRobotPose c)))))"
  using assms
  by (auto simp add: isGoalReached_def Let_def split_def)

text \<open>
  At the planner that was never initialised the answer is false; at the concrete initialised
  planner, whose stand-in goal check fails, it is false as well.
\<close>

theorem isGoalReached_total_witness:
  "map_option fst (isGoalReached example_ext example_planner_constructed) = Some False \<and>
   map_option fst (isGoalReached example_ext example_planner) = Some False"
proof -
  have "initialized example_planner_constructed \<longrightarrow>
        costmap_ros example_planner_constructed \<noteq> None"
    by (simp add: example_defs)
  from isGoalReached_total [OF this, of example_ext]
  have a: "map_option fst (isGoalReached example_ext example_planner_constructed) = Some False"
    by (auto simp add: example_defs)
  have "initialized example_planner \<longrightarrow> costmap_ros example_planner \<noteq> None"
    by (simp add: example_defs)
  from isGoalReached_total [OF this, of example_ext]
  have b: "map_option fst (isGoalReached example_ext example_planner) = Some False"
    by (auto simp add: example_defs)
  from a b show ?thesis by simp
qed

subsection \<open>The sampling search\<close>

text \<open>
  Claim C2. Whenever \<^verbatim>\<open>findBestPath\<close>, called as \<^verbatim>\<open>hanpComputeVelocityCommands\<close> calls it
  on an initialised planner, returns a winning trajectory of negative cost (no feasible
  candidate), the drive velocities it hands back are the identity transform, whatever the
  default-constructed \<^verbatim>\<open>drive_cmds\<close> held, and \<^verbatim>\<open>hanpComputeVelocityCommands\<close> returns false
  with a command whose linear.x, linear.y and angular.z are zero.
\<close>

theorem hanpComputeVelocityCommands_infeasible:
  assumes "initialized st" "costmap_ros st = Some c"
    "findBestPath E global_pose (getRobotVel E) (new_drive_cmds E c) (getRobotFootprint c) st =
       Some (path, dv, st', out)"
    "cost path < 0"
  shows "dv = setIdentity (new_drive_cmds E c) \<and>
         origin_x dv = 0 \<and> origin_y dv = 0 \<and> rotation_yaw dv = 0 \<and>
         hanpComputeVelocityCommands E global_pose cmd_vel st =
           Some (False, cmd_vel\<lparr>linear_x := 0, linear_y := 0, angular_z := 0\<rparr>, st',
                 out @ [LocalPlanPublished [], PointHeadPublished (point_head_front E c)])"
proof -
  from findBestPath_result [OF assms(3)] assms(4)
  have dv: "dv = setIdentity (new_drive_cmds E c)"
    by simp
  then have z: "origin_x dv = 0" "origin_y dv = 0" "rotation_yaw dv = 0"
    by (simp_all add: setIdentity_def)
  have "hanpComputeVelocityCommands E global_pose cmd_vel st =
          Some (False, cmd_vel\<lparr>linear_x := 0, linear_y := 0, angular_z := 0\<rparr>, st',
                out @ [LocalPlanPublished [], PointHeadPublished (point_head_front E c)])"
    unfolding hanpComputeVelocityCommands_def
    by (simp add: assms Let_def z)
  with dv z show ?thesis by simp
qed

text \<open>
  At the concrete planner, whose stand-in search returns the trajectory it was given, of cost
  -7, and whose default-constructed transform has origin (7, 8, 9) and yaw 2: the call
  reports failure and the command (1, 1, 1) becomes (0, 0, 0).
\<close>

theorem hanpComputeVelocityCommands_infeasible_witness:
  "origin_x (new_drive_cmds example_ext example_costmap_ros) = 7 \<and>
   origin_y (new_drive_cmds example_ext example_costmap_ros) = 8 \<and>
   rotation_yaw (new_drive_cmds example_ext example_costmap_ros) = 2 \<and>
   linear_x example_twist = 1 \<and> linear_y example_twist = 1 \<and> angular_z example_twist = 1 \<and>
   map_option (\<lambda>(ok, cmd, st', out). (ok, linear_x cmd, linear_y cmd, angular_z cmd))
     (hanpComputeVelocityCommands example_ext example_pose example_twist example_planner) =
   Some (False, 0, 0, 0)"
proof -
  have i: "initialized example_planner" and
    c: "costmap_ros example_planner = Some example_costmap_ros"
    by (simp_all add: example_defs)
  have "\<exists>path dv st' out.
          findBestPath example_ext example_pose (getRobotVel example_ext)
            (new_drive_cmds example_ext example_costmap_ros)
            (getRobotFootprint example_costmap_ros)
            example_planner = Some (path, dv, st', out) \<and> cost path < 0"
    by (simp add: planner_defs example_defs)
  then obtain path dv st' out where
    f: "findBestPath example_ext example_pose (getRobotVel example_ext)
          (new_drive_cmds example_ext example_costmap_ros)
          (getRobotFootprint example_costmap_ros)
          example_planner = Some (path, dv, st', out)" and n: "cost path < 0"
    by blast
  from hanpComputeVelocityCommands_infeasible [OF i c f n, of example_twist]
  show ?thesis by (simp add: new_drive_cmds_def example_defs)
qed

text \<open>
  Claim C9. For every pose, velocity, footprint and planner whose critics and trajectory cloud
  exist and whose plan is not empty, and for any two settings of \<^verbatim>\<open>publish_traj_pc_\<close> and
  \<^verbatim>\<open>publish_cost_grid_pc_\<close>, both runs of \<^verbatim>\<open>findBestPath\<close> return, with the same trajectory
  and the same drive velocities, and they leave planners that differ at most in the
  trajectory cloud and in the two flags themselves.
\<close>

theorem findBestPath_flags:
  assumes "critics_of st = Some cr" "traj_cloud st = Some tc" "global_plan st \<noteq> []"
  shows "\<exists>path dv' s1 s2 out1 out2.
           findBestPath E global_pose global_vel dv footprint_spec
             (st\<lparr>publish_traj_pc := a, publish_cost_grid_pc := b\<rparr>) =
               Some (path, dv', s1, out1) \<and>
           findBestPath E global_pose global_vel dv footprint_spec
             (st\<lparr>publish_traj_pc := a', publish_cost_grid_pc := b'\<rparr>) =
               Some (path, dv', s2, out2) \<and>
           s1\<lparr>traj_cloud := None, publish_traj_pc := False, publish_cost_grid_pc := False\<rparr> =
           s2\<lparr>traj_cloud := None, publish_traj_pc := False, publish_cost_grid_pc := False\<rparr>"
  using critics_of_SomeD [OF assms(1)] assms(2,3)
  by (cases a; cases a';
      simp add: findBestPath_def critics_of_def Let_def split_def vector_back_def)

text \<open>
  At the concrete planner, with both outputs on and with both off: the trajectory and the
  drive velocities agree, and both runs return.
\<close>

theorem findBestPath_flags_witness:
  "map_option (\<lambda>(path, dv, s, out). (path, dv))
     (findBestPath example_ext example_pose example_pose example_pose []
        (example_planner\<lparr>publish_traj_pc := True, publish_cost_grid_pc := True\<rparr>)) =
   map_option (\<lambda>(path, dv, s, out). (path, dv))
     (findBestPath example_ext example_pose example_pose example_pose []
        (example_planner\<lparr>publish_traj_pc := False, publish_cost_grid_pc := False\<rparr>)) \<and>
   findBestPath example_ext example_pose example_pose example_pose []
     (example_planner\<lparr>publish_traj_pc := True, publish_cost_grid_pc := True\<rparr>) \<noteq> None"
proof -
  obtain cr where cr: "critics_of example_planner = Some cr"
    by (simp add: critics_of_def example_defs)
  obtain tc where tc: "traj_cloud example_planner = Some tc"
    by (simp add: example_defs)
  have g: "global_plan example_planner \<noteq> []"
    by (simp add: example_defs)
  from findBestPath_flags [OF cr tc g, of example_ext example_pose example_pose example_pose
      "[]" True True False False]
  show ?thesis by auto
qed

subsection \<open>The heading-alignment critic\<close>




subsection \<open>The control cycle\<close>

text \<open>
  Claim C1. In every cycle of \<^verbatim>\<open>computeVelocityCommands\<close> that passes the precondition
  checks (the pose is obtained and the local plan is obtained and not empty) and updates the
  critics, exactly one of the two command producers runs. If \<^verbatim>\<open>isPositionReached\<close> holds,
  the result is that of the latched stop-rotate controller, run after the empty global and
  local plans and the head point were published, and the search is not consulted: whatever
  \<^verbatim>\<open>findBestTrajectory\<close> would compute, the cycle is the same. Otherwise the result, the
  command and the planner are those of \<^verbatim>\<open>hanpComputeVelocityCommands\<close>, and the latched
  controller is not consulted: whatever \<^verbatim>\<open>computeVelocityCommandsStopRotate\<close> would
  answer, the cycle is the same.
\<close>

theorem computeVelocityCommands_one_producer:
  assumes "costmap_ros st = Some c" "getRobotPose c = (True, p)"
    "getLocalPlan E p (planner_util st) = (True, tp, u)" "tp \<noteq> []"
    "updatePlanAndLocalCosts E p tp (st\<lparr>current_pose := p, planner_util := u\<rparr>) = Some st1"
    "isPositionReached E (latchedStopRotateController st) u p = (reached, l)"
  shows "(reached \<longrightarrow>
            computeVelocityCommands E cmd_vel st =
              run_stop_rotate E
                (computeVelocityCommandsStopRotate E cmd_vel
                   (getAccLimits (getCurrentLimits E u)) (sim_period st1) u p l)
                (st1\<lparr>latchedStopRotateController := l\<rparr>)
                [GlobalPlanPublished [], LocalPlanPublished [],
                 PointHeadPublished (point_head_front E c)] \<and>
            (\<forall>f. computeVelocityCommands (E\<lparr>findBestTrajectory := f\<rparr>) cmd_vel st =
                  computeVelocityCommands E cmd_vel st)) \<and>
         (\<not> reached \<longrightarrow>
            map_option (\<lambda>(ok, cmd, st', out). (ok, cmd, st'))
              (computeVelocityCommands E cmd_vel st) =
            map_option (\<lambda>(ok, cmd, st', out). (ok, cmd, st'))
              (hanpComputeVelocityCommands E p cmd_vel
                 (st1\<lparr>latchedStopRotateController := l\<rparr>)) \<and>
            (\<forall>g. computeVelocityCommands (E\<lparr>computeVelocityCommandsStopRotate := g\<rparr>) cmd_vel st =
                  computeVelocityCommands E cmd_vel st))"
proof (intro conjI impI allI)
  note fr = updatePlanAndLocalCosts_frame [OF assms(5)]
  assume r: reached
  show "computeVelocityCommands E cmd_vel st =
              run_stop_rotate E
                (computeVelocityCommandsStopRotate E cmd_vel
                   (getAccLimits (getCurrentLimits E u)) (sim_period st1) u p l)
                (st1\<lparr>latchedStopRotateController := l\<rparr>)
                [GlobalPlanPublished [], LocalPlanPublished [],
                 PointHeadPublished (point_head_front E c)]"
    using assms r fr by (simp add: computeVelocityCommands_def Let_def)
  fix f
  show "computeVelocityCommands (E\<lparr>findBestTrajectory := f\<rparr>) cmd_vel st =
                  computeVelocityCommands E cmd_vel st"
    using assms r fr
    by (simp add: computeVelocityCommands_def Let_def updatePlanAndLocalCosts_ext
        run_stop_rotate_ext_findBestTrajectory point_head_front_def)
next
  note fr = updatePlanAndLocalCosts_frame [OF assms(5)]
  assume r: "\<not> reached"
  show "map_option (\<lambda>(ok, cmd, st', out). (ok, cmd, st'))
              (computeVelocityCommands E cmd_vel st) =
            map_option (\<lambda>(ok, cmd, st', out). (ok, cmd, st'))
              (hanpComputeVelocityCommands E p cmd_vel
                 (st1\<lparr>latchedStopRotateController := l\<rparr>))"
    using assms r fr
    by (cases "hanpComputeVelocityCommands E p cmd_vel
                 (st1\<lparr>latchedStopRotateController := l\<rparr>)")
       (auto simp add: computeVelocityCommands_def Let_def)
  fix g
  show "computeVelocityCommands (E\<lparr>computeVelocityCommandsStopRotate := g\<rparr>) cmd_vel st =
                  computeVelocityCommands E cmd_vel st"
    using assms r fr
    by (simp add: computeVelocityCommands_def Let_def updatePlanAndLocalCosts_ext
        hanpComputeVelocityCommands_ext)
qed

text \<open>
  At the concrete planner with its latch set, a search that would find a feasible trajectory
  changes nothing; with the latch clear, a controller that would finish at once with success
  changes nothing, and the cycle fails as the stand-in search does.
\<close>

theorem computeVelocityCommands_one_producer_witness:
  "computeVelocityCommands
     (example_ext\<lparr>findBestTrajectory := (\<lambda>g cr u t. (example_trajectory, []))\<rparr>)
     example_twist example_planner_latched =
   computeVelocityCommands example_ext example_twist example_planner_latched \<and>
   computeVelocityCommands example_ext example_twist example_planner_latched \<noteq> None \<and>
   computeVelocityCommands
     (example_ext\<lparr>computeVelocityCommandsStopRotate :=
        (\<lambda>cmd acc sp u p l. Finished True cmd l)\<rparr>)
     example_twist example_planner =
   computeVelocityCommands example_ext example_twist example_planner \<and>
   map_option (\<lambda>(ok, cmd, st', out). ok)
     (computeVelocityCommands example_ext example_twist example_planner) = Some False"
proof -
  have c: "costmap_ros example_planner_latched = Some example_costmap_ros"
    "costmap_ros example_planner = Some example_costmap_ros"
    and p: "getRobotPose example_costmap_ros = (True, example_pose)"
    and lp: "getLocalPlan example_ext example_pose (planner_util example_planner_latched) =
              (True, [example_goal], [example_goal])"
      "getLocalPlan example_ext example_pose (planner_util example_planner) =
              (True, [example_goal], [example_goal])"
    and n: "[example_goal] \<noteq> []"
    and r: "isPositionReached example_ext (latchedStopRotateController example_planner_latched)
              [example_goal] example_pose =
              (True, latchedStopRotateController example_planner_latched)"
      "isPositionReached example_ext (latchedStopRotateController example_planner)
              [example_goal] example_pose =
              (False, latchedStopRotateController example_planner)"
    by (simp_all add: example_defs)
  obtain s1 where s1: "updatePlanAndLocalCosts example_ext example_pose [example_goal]
      (example_planner_latched\<lparr>current_pose := example_pose, planner_util := [example_goal]\<rparr>) =
      Some s1"
    by (simp add: planner_defs example_defs)
  obtain s2 where s2: "updatePlanAndLocalCosts example_ext example_pose [example_goal]
      (example_planner\<lparr>current_pose := example_pose, planner_util := [example_goal]\<rparr>) =
      Some s2"
    by (simp add: planner_defs example_defs)
  from computeVelocityCommands_one_producer [OF c(1) p lp(1) n s1 r(1), of example_twist]
  have a: "computeVelocityCommands
     (example_ext\<lparr>findBestTrajectory := (\<lambda>g cr u t. (example_trajectory, []))\<rparr>)
     example_twist example_planner_latched =
     computeVelocityCommands example_ext example_twist example_planner_latched"
    by simp
  from computeVelocityCommands_one_producer [OF c(2) p lp(2) n s2 r(2), of example_twist]
  have b: "computeVelocityCommands
     (example_ext\<lparr>computeVelocityCommandsStopRotate :=
        (\<lambda>cmd acc sp u p l. Finished True cmd l)\<rparr>)
     example_twist example_planner =
     computeVelocityCommands example_ext example_twist example_planner"
    by simp
  have d: "computeVelocityCommands example_ext example_twist example_planner_latched \<noteq> None"
    "map_option (\<lambda>(ok, cmd, st', out). ok)
       (computeVelocityCommands example_ext example_twist example_planner) = Some False"
    by (simp_all add: planner_defs example_defs)
  from a b d show ?thesis by simp
qed

text \<open>
  Claim C3, as the spec states it, fails: \<^verbatim>\<open>checkTrajectory\<close> begins by resetting the
  oscillation flags (line 468), whatever the robot's position. The concrete planner holds the
  lock on the positive x direction, set at the origin with reset distance 1, and the robot
  still stands at the origin. After \<^verbatim>\<open>checkTrajectory\<close> the lock is gone, and so it is after a
  latched cycle of \<^verbatim>\<open>computeVelocityCommands\<close>, in which the stop-rotate controller asks for
  one obstacle check.
\<close>

theorem oscillation_lock_counterexample:
  "x_pos_locked (oscillation_costs example_planner) \<and>
   x_pos_locked (oscillation_costs example_planner_latched) \<and>
   x_lock_pose (oscillation_costs example_planner) = (0, 0, 0) \<and>
   x_lock_pose (oscillation_costs example_planner_latched) = (0, 0, 0) \<and>
   oscillation_reset_dist (oscillation_costs example_planner) = 1 \<and>
   oscillation_reset_dist (oscillation_costs example_planner_latched) = 1 \<and>
   map_option (\<lambda>c. (origin_x (snd (getRobotPose c)), origin_y (snd (getRobotPose c)),
                     rotation_yaw (snd (getRobotPose c))))
     (costmap_ros example_planner_latched) = Some (0, 0, 0) \<and>
   linear_displacement (0, 0, 0) (x_lock_pose (oscillation_costs example_planner_latched)) = 0 \<and>
   map_option (\<lambda>(ok, st', out). x_pos_locked (oscillation_costs st'))
     (checkTrajectory example_ext (0, 0, 0) (0, 0, 0) (0, 0, 1) example_planner) = Some False \<and>
   map_option (\<lambda>(ok, cmd, st', out). x_pos_locked (oscillation_costs st'))
     (computeVelocityCommands example_ext example_twist example_planner_latched) = Some False"
  by (simp add: planner_defs example_defs)

text \<open>
  Claim C3, amended. For every axis and direction, once an oscillation lock is set, of the
  operations of an initialised planner only \<^verbatim>\<open>setPlan\<close>, \<^verbatim>\<open>checkTrajectory\<close> and a latched
  cycle of \<^verbatim>\<open>computeVelocityCommands\<close> in which the stop-rotate controller asks for an
  obstacle check clear it whatever the robot's position. The other operations do not clear
  it until the robot's position has moved beyond the configured reset distance (x and y) or
  reset angle (theta) from the pose at which the lock was set:
  \<^item> a cycle of \<^verbatim>\<open>computeVelocityCommands\<close> that fails a precondition, and a latched cycle
    in which the controller asks for no obstacle check, leave the oscillation state as it
    was;
  \<^item> a search cycle applies the guard's update at the robot position (narrowed to
    \<^verbatim>\<open>float\<close>), and every lock from whose lock pose that position is within the reset
    distance, or the reset angle for theta, is still set afterwards; the same holds of
    \<^verbatim>\<open>hanpComputeVelocityCommands\<close> and \<^verbatim>\<open>findBestPath\<close> called on their own;
  \<^item> \<^verbatim>\<open>isGoalReached\<close> and \<^verbatim>\<open>updatePlanAndLocalCosts\<close> leave the oscillation state as it
    was, and \<^verbatim>\<open>reconfigureCB\<close> changes only the configured reset distance and angle;
  \<^item> \<^verbatim>\<open>checkTrajectory\<close>, whenever it returns, leaves no lock set.
\<close>

theorem oscillation_locks_cleared_by:
  assumes "initialized st" "costmap_ros st = Some c" "getRobotPose c = (got_pose, p)"
    "getLocalPlan E p (planner_util st) = (got_plan, tp, u)"
    "computeVelocityCommands E cmd_vel st = Some (ok, cmd, st', out)"
  shows "(\<not> got_pose \<or> \<not> got_plan \<or> tp = [] \<longrightarrow>
            oscillation_costs st' = oscillation_costs st) \<and>
         (got_pose \<and> got_plan \<and> tp \<noteq> [] \<longrightarrow>
            (\<exists>st1 reached l.
               updatePlanAndLocalCosts E p tp (st\<lparr>current_pose := p, planner_util := u\<rparr>) =
                 Some st1 \<and>
               isPositionReached E (latchedStopRotateController st) u p = (reached, l) \<and>
               (reached \<longrightarrow>
                  oscillation_costs st' =
                    (if asks_check
                          (computeVelocityCommandsStopRotate E cmd_vel
                             (getAccLimits (getCurrentLimits E u)) (sim_period st1) u p l)
                     then resetOscillationFlags (oscillation_costs st)
                     else oscillation_costs st)) \<and>
               (\<not> reached \<longrightarrow>
                  oscillation_costs st' =
                    updateOscillationFlags
                      (Vector3f E (origin_x p) (origin_y p) (rotation_yaw p))
                      (result_traj st') (lim_min_trans_vel (getCurrentLimits E u))
                      (oscillation_costs st) \<and>
                  locks_survive (Vector3f E (origin_x p) (origin_y p) (rotation_yaw p))
                    (oscillation_costs st) (oscillation_costs st')))) \<and>
         (\<forall>gp cv ok2 cmd2 st2 out2.
            hanpComputeVelocityCommands E gp cv st = Some (ok2, cmd2, st2, out2) \<longrightarrow>
              locks_survive (Vector3f E (origin_x gp) (origin_y gp) (rotation_yaw gp))
                (oscillation_costs st) (oscillation_costs st2)) \<and>
         (\<forall>gp gv dv fp path dv' st2 out2.
            findBestPath E gp gv dv fp st = Some (path, dv', st2, out2) \<longrightarrow>
              locks_survive (Vector3f E (origin_x gp) (origin_y gp) (rotation_yaw gp))
                (oscillation_costs st) (oscillation_costs st2)) \<and>
         (\<forall>ok2 st2 out2.
            isGoalReached E st = Some (ok2, st2, out2) \<longrightarrow>
              oscillation_costs st2 = oscillation_costs st) \<and>
         (\<forall>gp np st2.
            updatePlanAndLocalCosts E gp np st = Some st2 \<longrightarrow>
              oscillation_costs st2 = oscillation_costs st) \<and>
         (\<forall>config config' st2 out2.
            reconfigureCB E config st = Some (config', st2, out2) \<longrightarrow>
              oscillation_costs st2 =
                (oscillation_costs st)
                  \<lparr>oscillation_reset_dist :=
                     cfg_oscillation_reset_dist (applied_config st config),
                   oscillation_reset_angle :=
                     cfg_oscillation_reset_angle (applied_config st config)\<rparr>) \<and>
         (\<forall>pos vel vs ok2 st2 out2.
            checkTrajectory E pos vel vs st = Some (ok2, st2, out2) \<longrightarrow>
              \<not> any_lock (oscillation_costs st2))"
proof (intro conjI impI allI)
  assume "\<not> got_pose \<or> \<not> got_plan \<or> tp = []"
  with assms(5) show "oscillation_costs st' = oscillation_costs st"
    by (auto simp add: computeVelocityCommands_def Let_def assms(2,3,4) split: if_splits)
next
  assume pre: "got_pose \<and> got_plan \<and> tp \<noteq> []"
  with assms(5) obtain st1 where
    upd: "updatePlanAndLocalCosts E p tp (st\<lparr>current_pose := p, planner_util := u\<rparr>) = Some st1"
    by (auto simp add: computeVelocityCommands_def Let_def assms(2,3,4)
        split: Option.bind_splits)
  note fr = updatePlanAndLocalCosts_frame [OF upd]
  obtain reached l where
    ipr: "isPositionReached E (latchedStopRotateController st) u p = (reached, l)"
    by (cases "isPositionReached E (latchedStopRotateController st) u p")
  have latched: "oscillation_costs st' =
                    (if asks_check
                          (computeVelocityCommandsStopRotate E cmd_vel
                             (getAccLimits (getCurrentLimits E u)) (sim_period st1) u p l)
                     then resetOscillationFlags (oscillation_costs st)
                     else oscillation_costs st)" if reached
  proof -
    from assms(5) that have
      "run_stop_rotate E
         (computeVelocityCommandsStopRotate E cmd_vel
            (getAccLimits (getCurrentLimits E u)) (sim_period st1) u p l)
         (st1\<lparr>latchedStopRotateController := l\<rparr>)
         [GlobalPlanPublished [], LocalPlanPublished [],
          PointHeadPublished (point_head_front E c)] = Some (ok, cmd, st', out)"
      by (simp add: computeVelocityCommands_def Let_def assms(2,3,4) pre upd ipr fr that)
    from run_stop_rotate_oscillation [OF this] fr show ?thesis by simp
  qed
  have searching: "oscillation_costs st' =
                    updateOscillationFlags
                      (Vector3f E (origin_x p) (origin_y p) (rotation_yaw p))
                      (result_traj st') (lim_min_trans_vel (getCurrentLimits E u))
                      (oscillation_costs st) \<and>
                   locks_survive (Vector3f E (origin_x p) (origin_y p) (rotation_yaw p))
                     (oscillation_costs st) (oscillation_costs st')" if "\<not> reached"
  proof -
    from assms(5) that obtain ok1 out1 where
      "hanpComputeVelocityCommands E p cmd_vel (st1\<lparr>latchedStopRotateController := l\<rparr>) =
         Some (ok1, cmd, st', out1)"
      by (auto simp add: computeVelocityCommands_def Let_def assms(2,3,4) pre upd ipr fr that
          split: Option.bind_splits if_splits)
    from hanpComputeVelocityCommands_oscillation [OF this] fr assms(1)
    have "oscillation_costs st' =
            updateOscillationFlags
              (Vector3f E (origin_x p) (origin_y p) (rotation_yaw p))
              (result_traj st') (lim_min_trans_vel (getCurrentLimits E u))
              (oscillation_costs st)"
      by simp
    then show ?thesis
      by (simp add: updateOscillationFlags_survives)
  qed
  from upd ipr latched searching
  show "\<exists>st1 reached l.
               updatePlanAndLocalCosts E p tp (st\<lparr>current_pose := p, planner_util := u\<rparr>) =
                 Some st1 \<and>
               isPositionReached E (latchedStopRotateController st) u p = (reached, l) \<and>
               (reached \<longrightarrow>
                  oscillation_costs st' =
                    (if asks_check
                          (computeVelocityCommandsStopRotate E cmd_vel
                             (getAccLimits (getCurrentLimits E u)) (sim_period st1) u p l)
                     then resetOscillationFlags (oscillation_costs st)
                     else oscillation_costs st)) \<and>
               (\<not> reached \<longrightarrow>
                  oscillation_costs st' =
                    updateOscillationFlags
                      (Vector3f E (origin_x p) (origin_y p) (rotation_yaw p))
                      (result_traj st') (lim_min_trans_vel (getCurrentLimits E u))
                      (oscillation_costs st) \<and>
                  locks_survive (Vector3f E (origin_x p) (origin_y p) (rotation_yaw p))
                    (oscillation_costs st) (oscillation_costs st'))"
    by blast
next
  fix gp cv ok2 cmd2 st2 out2
  assume "hanpComputeVelocityCommands E gp cv st = Some (ok2, cmd2, st2, out2)"
  from hanpComputeVelocityCommands_oscillation [OF this]
  show "locks_survive (Vector3f E (origin_x gp) (origin_y gp) (rotation_yaw gp))
          (oscillation_costs st) (oscillation_costs st2)"
    by (simp add: updateOscillationFlags_survives locks_survive_refl)
next
  fix gp gv dv fp path dv' st2 out2
  assume "findBestPath E gp gv dv fp st = Some (path, dv', st2, out2)"
  from findBestPath_oscillation [OF this]
  show "locks_survive (Vector3f E (origin_x gp) (origin_y gp) (rotation_yaw gp))
          (oscillation_costs st) (oscillation_costs st2)"
    by (simp add: updateOscillationFlags_survives)
next
  fix ok2 st2 out2
  assume "isGoalReached E st = Some (ok2, st2, out2)"
  then show "oscillation_costs st2 = oscillation_costs st"
    by (rule isGoalReached_oscillation)
next
  fix gp np st2
  assume "updatePlanAndLocalCosts E gp np st = Some st2"
  from updatePlanAndLocalCosts_frame [OF this]
  show "oscillation_costs st2 = oscillation_costs st" by simp
next
  fix config config' st2 out2
  assume "reconfigureCB E config st = Some (config', st2, out2)"
  then show "oscillation_costs st2 =
                (oscillation_costs st)
                  \<lparr>oscillation_reset_dist :=
                     cfg_oscillation_reset_dist (applied_config st config),
                   oscillation_reset_angle :=
                     cfg_oscillation_reset_angle (applied_config st config)\<rparr>"
    by (rule reconfigureCB_oscillation)
next
  fix pos vel vs ok2 st2 out2
  assume "checkTrajectory E pos vel vs st = Some (ok2, st2, out2)"
  from checkTrajectory_oscillation [OF this]
  show "\<not> any_lock (oscillation_costs st2)"
    by (simp add: any_lock_def resetOscillationFlags_def)
qed

text \<open>
  At the concrete planner in a search cycle whose search selects a feasible trajectory
  driving backwards: the robot stands on the lock pose of the positive x lock, within the
  reset distance 1, and the lock is still set after the cycle. The guard itself is not
  idle: applied 2 m from the lock pose with a forward trajectory, it clears the lock.
\<close>

theorem oscillation_locks_cleared_by_witness:
  "x_pos_locked (oscillation_costs example_planner) \<and>
   linear_displacement (Vector3f example_ext 0 0 0)
     (x_lock_pose (oscillation_costs example_planner)) \<le>
     oscillation_reset_dist (oscillation_costs example_planner) \<and>
   map_option (\<lambda>(ok, cmd, st', out). (ok, x_pos_locked (oscillation_costs st')))
     (computeVelocityCommands
        (example_ext\<lparr>findBestTrajectory :=
           (\<lambda>g cr u t. (example_trajectory\<lparr>xv := - 1\<rparr>, []))\<rparr>)
        example_twist example_planner) = Some (True, True) \<and>
   \<not> x_pos_locked
       (updateOscillationFlags (2, 0, 0) example_trajectory 0
          (oscillation_costs example_planner))"
proof -
  let ?E = "example_ext\<lparr>findBestTrajectory :=
              (\<lambda>g cr u t. (example_trajectory\<lparr>xv := - 1\<rparr>, []))\<rparr>"
  have i: "initialized example_planner"
    and c: "costmap_ros example_planner = Some example_costmap_ros"
    and p: "getRobotPose example_costmap_ros = (True, example_pose)"
    and lp: "getLocalPlan ?E example_pose (planner_util example_planner) =
              (True, [example_goal], [example_goal])"
    and x: "x_pos_locked (oscillation_costs example_planner)"
    and d: "linear_displacement (Vector3f example_ext 0 0 0)
              (x_lock_pose (oscillation_costs example_planner)) \<le>
            oscillation_reset_dist (oscillation_costs example_planner)"
    and r: "isPositionReached ?E (latchedStopRotateController example_planner)
              [example_goal] example_pose =
              (False, latchedStopRotateController example_planner)"
    by (simp_all add: example_defs Vector3f_def linear_displacement_def binary32_round_0)
  have ok: "map_option (\<lambda>(ok, cmd, st', out). ok)
              (computeVelocityCommands ?E example_twist example_planner) = Some True"
    by (simp add: planner_defs example_defs createQuaternionFromYaw_def)
  then obtain ok cmd st' out where
    run: "computeVelocityCommands ?E example_twist example_planner = Some (ok, cmd, st', out)"
    and t: "ok = True"
    by auto
  from oscillation_locks_cleared_by [OF i c p lp run] r
  have "locks_survive (Vector3f ?E (origin_x example_pose) (origin_y example_pose)
                         (rotation_yaw example_pose))
          (oscillation_costs example_planner) (oscillation_costs st')"
    by auto
  with x d have "x_pos_locked (oscillation_costs st')"
    by (simp add: locks_survive_def Vector3f_def example_pose_def example_ext_def)
  with run t have a: "map_option (\<lambda>(ok, cmd, st', out). (ok, x_pos_locked (oscillation_costs st')))
     (computeVelocityCommands ?E example_twist example_planner) = Some (True, True)"
    by simp
  have b: "\<not> x_pos_locked
       (updateOscillationFlags (2, 0, 0) example_trajectory 0
          (oscillation_costs example_planner))"
    by (simp add: planner_defs example_defs)
  from x d a b show ?thesis by simp
qed

text \<open>
  Claim C8 fails on the code for the uninitialised planner, and the code is at fault:
  \<^verbatim>\<open>computeVelocityCommands\<close> begins by calling through \<^verbatim>\<open>costmap_ros_\<close> (line 389)
  without the \<^verbatim>\<open>isInitialized\<close> guard with which \<^verbatim>\<open>setPlan\<close> (line 247), \<^verbatim>\<open>isGoalReached\<close>
  (line 263) and \<^verbatim>\<open>hanpComputeVelocityCommands\<close> (line 307) begin. On a planner that was
  constructed and never initialised, the three guarded functions return false, while the
  cycle dereferences a pointer that was never set: undefined behaviour instead of a returned
  failure.
\<close>

theorem computeVelocityCommands_uninitialized:
  "\<not> initialized example_planner_constructed \<and>
   costmap_ros example_planner_constructed = None \<and>
   computeVelocityCommands example_ext example_twist example_planner_constructed = None \<and>
   fst (setPlan example_ext [example_goal] example_planner_constructed) = False \<and>
   map_option fst (isGoalReached example_ext example_planner_constructed) = Some False \<and>
   map_option fst
     (hanpComputeVelocityCommands example_ext example_pose example_twist
        example_planner_constructed) = Some False"
  by (simp add: planner_defs setPlan_def isGoalReached_def example_defs)

end

